theory Spec2Isabelle
  imports Main
begin

section \<open>The relational store\<close>

text \<open>
  The backend keeps no state of its own: every handler is a sequence of calls to the
  hosted store. The store is modelled as one record of tables, each table the list of
  its rows in the order an unordered select returns them. Nullable columns are options,
  text columns are strings of characters U+0000 to U+00FF.
\<close>

record profile =
  p_id :: string
  p_full_name :: "string option"
  p_phone :: "string option"
  p_gender :: "string option"
  p_dob :: "string option"
  p_role :: string
  p_approval_status :: string

record patient_profile =
  pp_profile_id :: string
  pp_hospital_id :: "string option"
  pp_cnic :: string
  pp_created_by :: "string option"
  pp_created_at :: string

record doctor_profile =
  dp_profile_id :: string
  dp_specialization :: "string option"
  dp_hospital_id :: "string option"
  dp_license_number :: "string option"
  dp_cnic :: "string option"
  dp_approval_status :: string

record doctor_assistant_profile =
  da_profile_id :: string
  da_doctor_profile_id :: "string option"
  da_hospital_id :: "string option"
  da_approval_status :: string

record hospital =
  h_id :: string
  h_name :: string
  h_address :: "string option"
  h_hospital_type :: "string option"
  h_admin_profile_id :: "string option"
  h_status :: string

record auth_user =
  u_id :: string
  u_email :: string
  meta_full_name :: "string option"
  meta_phone :: "string option"
  meta_gender :: "string option"
  meta_dob :: "string option"
  meta_role :: "string option"

record store =
  profiles :: "profile list"
  patient_profiles :: "patient_profile list"
  doctor_profiles :: "doctor_profile list"
  doctor_assistant_profiles :: "doctor_assistant_profile list"
  hospitals :: "hospital list"
  auth_users :: "auth_user list"
  sessions :: "(string \<times> string) list"

text \<open>
  Every call to the store may come back with an error. The calls are named after the
  variable the handler binds the error to; \<open>up e\<close> says that the call behind \<open>e\<close>
  is answered with an upstream error (the two calls of the middleware carry the prefix
  \<open>mw_\<close>, since a handler behind it binds the same names again). A write that is
  answered with an error leaves its table as it was.
\<close>

datatype call_error =
  mw_userError | mw_profileError
  | assistantLinkError | existingPpError | existingProfileError | updateError
  | updateLinkError | newProfileError | newPpError
  | docError | daError | profError | profileError | hospitalError
  | userError | createError | ppError | hospError

type_synonym upstream = "call_error \<Rightarrow> bool"

text \<open>\<open>.single()\<close>: the one row of the result, an error when there is none or several.\<close>

fun single :: "'a list \<Rightarrow> 'a option" where
  "single [x] = Some x"
| "single _ = None"

text \<open>JavaScript truthiness of an optional string: absent, null and the empty string are falsy.\<close>

fun truthy :: "string option \<Rightarrow> bool" where
  "truthy None = False"
| "truthy (Some v) = (v \<noteq> [])"

text \<open>The payload of an update of \<open>profiles\<close>: a column that is \<open>None\<close> is not in the payload.\<close>

record profile_patch =
  set_full_name :: "string option"
  set_phone :: "string option"
  set_gender :: "string option"
  set_dob :: "string option"
  set_role :: "string option"
  set_approval_status :: "string option"

definition no_patch :: profile_patch where
  "no_patch = \<lparr>set_full_name = None, set_phone = None, set_gender = None, set_dob = None,
     set_role = None, set_approval_status = None\<rparr>"

definition patch_profile :: "profile_patch \<Rightarrow> profile \<Rightarrow> profile" where
  "patch_profile u p =
     p\<lparr>p_full_name := (case set_full_name u of None \<Rightarrow> p_full_name p | Some v \<Rightarrow> Some v),
       p_phone := (case set_phone u of None \<Rightarrow> p_phone p | Some v \<Rightarrow> Some v),
       p_gender := (case set_gender u of None \<Rightarrow> p_gender p | Some v \<Rightarrow> Some v),
       p_dob := (case set_dob u of None \<Rightarrow> p_dob p | Some v \<Rightarrow> Some v),
       p_role := (case set_role u of None \<Rightarrow> p_role p | Some v \<Rightarrow> v),
       p_approval_status :=
         (case set_approval_status u of None \<Rightarrow> p_approval_status p | Some v \<Rightarrow> v)\<rparr>"

text \<open>\<open>from("profiles").update(u).eq("id", i)\<close>\<close>

definition update_profiles :: "profile_patch \<Rightarrow> string \<Rightarrow> profile list \<Rightarrow> profile list" where
  "update_profiles u i ps = map (\<lambda>p. if p_id p = i then patch_profile u p else p) ps"

text \<open>
  \<open>from("profiles").insert(p)\<close>. The column \<open>id\<close> is the key every handler reads
  one profile by (\<open>.eq("id", i).single()\<close>): the store answers an insert of an id that
  is already there with an error, as it does when \<open>err\<close> holds.
\<close>

definition insert_profile :: "bool \<Rightarrow> profile \<Rightarrow> profile list \<Rightarrow> profile list option" where
  "insert_profile err p ps =
     (if err \<or> p_id p \<in> set (map p_id ps) then None else Some (ps @ [p]))"

text \<open>\<open>update({approval_status: v}).eq("id", i)\<close> on \<open>profiles\<close>.\<close>

definition set_profile_status :: "string \<Rightarrow> string \<Rightarrow> profile list \<Rightarrow> profile list" where
  "set_profile_status v i ps = update_profiles (no_patch\<lparr>set_approval_status := Some v\<rparr>) i ps"

section \<open>Responses\<close>

record patient_json =
  j_id :: string
  j_full_name :: "string option"
  j_phone :: "string option"
  j_gender :: "string option"
  j_dob :: "string option"
  j_cnic :: string
  j_created_at :: string

record found_json =
  f_id :: string
  f_full_name :: "string option"
  f_phone :: "string option"
  f_gender :: "string option"
  f_dob :: "string option"
  f_cnic :: string

record assistant_json =
  a_id :: string
  a_full_name :: string
  a_email :: string
  a_phone :: "string option"
  a_approval_status :: string

text \<open>
  The bodies the modelled handlers send: \<open>{error}\<close>; \<open>{error}\<close> with the identity
  provider's own message, or the given text when it has none; \<open>{status, patient}\<close>;
  \<open>{success: true}\<close>;
  \<open>{user, profile}\<close>; \<open>{found: false}\<close>; \<open>{found: true, patient, hospitals}\<close>;
  \<open>{assistant}\<close>.
\<close>

datatype json =
  ErrorJson string
  | ProviderErrorJson string
  | PatientJson string patient_json
  | SuccessJson
  | UserProfileJson auth_user profile
  | NotFoundJson
  | FoundJson found_json "(string \<times> string) list"
  | AssistantJson assistant_json

type_synonym response = "nat \<times> json"

section \<open>Patient identity reconciliation: POST /api/assistant/patients\<close>

text \<open>
  \<open>normalize = s.toString().trim().replace(/\s+/g, " ").toLowerCase()\<close>.
  White space in the modelled range is TAB, LF, VT, FF, CR, SPACE and NBSP; lower-casing
  moves A to Z and the capital letters of U+00C0 to U+00DE (but U+00D7) up by 32.
\<close>

definition is_space :: "char \<Rightarrow> bool" where
  "is_space c = (of_char c \<in> {9, 10, 11, 12, 13, 32, 160 :: nat})"

definition trim :: "string \<Rightarrow> string" where
  "trim s = rev (dropWhile is_space (rev (dropWhile is_space s)))"

text \<open>\<open>collapse in_run s\<close> replaces every maximal run of white space by one space;
  \<open>in_run\<close> says that the character before was white space of a run already replaced.\<close>

fun collapse :: "bool \<Rightarrow> string \<Rightarrow> string" where
  "collapse in_run [] = []"
| "collapse in_run (c # cs) =
     (if is_space c then (if in_run then collapse True cs else CHR '' '' # collapse True cs)
      else c # collapse False cs)"

definition toLowerCase :: "char \<Rightarrow> char" where
  "toLowerCase c =
     (let n = (of_char c :: nat) in
      if (65 \<le> n \<and> n \<le> 90) \<or> (192 \<le> n \<and> n \<le> 222 \<and> n \<noteq> 215)
      then char_of (n + 32) else c)"

definition normalize_name :: "string \<Rightarrow> string" where
  "normalize_name s = map toLowerCase (collapse False (trim s))"

record patient_body =
  fullName :: "string option"
  cnic :: "string option"
  phone :: "string option"
  gender :: "string option"
  dob :: "string option"

definition name_mismatch_message :: string where
  "name_mismatch_message = ''A patient with this CNIC already exists, but the name does not match. Please verify the CNIC with the patient or contact admin.''"

definition not_linked_message :: string where
  "not_linked_message = ''Assistant is not properly linked to a hospital. Please contact admin.''"

text \<open>Step 1: the hospital of the calling assistant, or the 400 response.\<close>

definition assistant_hospital :: "upstream \<Rightarrow> store \<Rightarrow> string \<Rightarrow> response + string" where
  "assistant_hospital up s assistantProfileId =
     (case (if up assistantLinkError then None
            else single (filter (\<lambda>r. da_profile_id r = assistantProfileId)
                   (doctor_assistant_profiles s))) of
        None \<Rightarrow> Inl (400, ErrorJson not_linked_message)
      | Some assistantLink \<Rightarrow>
          (case da_hospital_id assistantLink of
             None \<Rightarrow> Inl (400, ErrorJson not_linked_message)
           | Some hospitalId \<Rightarrow>
               if hospitalId = [] then Inl (400, ErrorJson not_linked_message)
               else Inr hospitalId))"

text \<open>\<open>a ?? b\<close> on optional strings.\<close>

definition nullish :: "string option \<Rightarrow> string option \<Rightarrow> string option" where
  "nullish a b = (case a of None \<Rightarrow> b | Some v \<Rightarrow> Some v)"

text \<open>The optional demographic update of CASE A.\<close>

definition updatePayload :: "profile \<Rightarrow> string \<Rightarrow> patient_body \<Rightarrow> profile_patch" where
  "updatePayload existingProfile fullName' b =
     \<lparr>set_full_name =
        (if \<not> truthy (p_full_name existingProfile)
            \<or> map_option normalize_name (p_full_name existingProfile)
                \<noteq> Some (normalize_name fullName')
         then Some fullName' else None),
      set_phone =
        (if truthy (phone b) \<and> phone b \<noteq> p_phone existingProfile then phone b else None),
      set_gender =
        (if truthy (gender b) \<and> gender b \<noteq> p_gender existingProfile then gender b else None),
      set_dob =
        (if truthy (dob b) \<and> dob b \<noteq> p_dob existingProfile then dob b else None),
      set_role = None, set_approval_status = None\<rparr>"

text \<open>The \<open>patient\<close> object of the two responses of CASE A.\<close>

definition patient_of ::
  "string \<Rightarrow> string \<Rightarrow> string \<Rightarrow> patient_body \<Rightarrow> profile \<Rightarrow> string \<Rightarrow> patient_json" where
  "patient_of existingProfileId fullName' cnic' b existingProfile created_at =
     \<lparr>j_id = existingProfileId, j_full_name = Some fullName',
      j_phone = nullish (phone b) (p_phone existingProfile),
      j_gender = nullish (gender b) (p_gender existingProfile),
      j_dob = nullish (dob b) (p_dob existingProfile),
      j_cnic = cnic', j_created_at = created_at\<rparr>"

text \<open>The update is sent when the payload has a key; its error is logged and dropped.\<close>

definition refresh_demographics :: "upstream \<Rightarrow> store \<Rightarrow> string \<Rightarrow> profile_patch \<Rightarrow> store" where
  "refresh_demographics up s existingProfileId payload =
     (if payload \<noteq> no_patch \<and> \<not> up updateError
      then s\<lparr>profiles := update_profiles payload existingProfileId (profiles s)\<rparr>
      else s)"

text \<open>\<open>from("patient_profiles").update({hospital_id, created_by}).eq("profile_id", i).eq("cnic", c)\<close>\<close>

definition relink ::
  "string \<Rightarrow> string \<Rightarrow> string \<Rightarrow> string \<Rightarrow> patient_profile list \<Rightarrow> patient_profile list" where
  "relink hospitalId assistantProfileId i c rows =
     map (\<lambda>r. if pp_profile_id r = i \<and> pp_cnic r = c
              then r\<lparr>pp_hospital_id := Some hospitalId, pp_created_by := Some assistantProfileId\<rparr>
              else r) rows"

text \<open>CASE A: rows with this CNIC exist; \<open>first_row\<close> is \<open>existingPatientProfiles[0]\<close>.\<close>

definition existing_patient ::
  "upstream \<Rightarrow> store \<Rightarrow> string \<Rightarrow> string \<Rightarrow> string \<Rightarrow> string \<Rightarrow> patient_body
    \<Rightarrow> patient_profile \<Rightarrow> patient_profile list \<Rightarrow> response \<times> store" where
  "existing_patient up s assistantProfileId hospitalId fullName' cnic' b first_row
       existingPatientProfiles =
     (let existingProfileId = pp_profile_id first_row in
      case (if up existingProfileError then None
            else single (filter (\<lambda>p. p_id p = existingProfileId) (profiles s))) of
        None \<Rightarrow> ((500, ErrorJson ''Failed to load existing patient information''), s)
      | Some existingProfile \<Rightarrow>
          if truthy (p_full_name existingProfile)
             \<and> map_option normalize_name (p_full_name existingProfile)
                 \<noteq> Some (normalize_name fullName')
          then ((400, ErrorJson name_mismatch_message), s)
          else
            let alreadyInThisHospital =
                  find (\<lambda>p. pp_hospital_id p = Some hospitalId) existingPatientProfiles;
                s1 = refresh_demographics up s existingProfileId
                       (updatePayload existingProfile fullName' b)
            in (case alreadyInThisHospital of
                 Some row \<Rightarrow>
                   ((200, PatientJson ''already_exists''
                      (patient_of existingProfileId fullName' cnic' b existingProfile
                         (pp_created_at row))), s1)
               | None \<Rightarrow>
                   if up updateLinkError
                   then ((500, ErrorJson ''Existing patient found, but failed to link to this hospital. Please try again.''), s1)
                   else
                     ((200, PatientJson ''linked''
                        (patient_of existingProfileId fullName' cnic' b existingProfile
                           (pp_created_at first_row))),
                      s1\<lparr>patient_profiles :=
                        relink hospitalId assistantProfileId (pp_profile_id first_row) cnic'
                          (patient_profiles s1)\<rparr>)))"

text \<open>CASE B: no row with this CNIC; \<open>gen_id\<close> and \<open>now\<close> are the id and the
  creation time the store gives the inserted rows. The profile stays when the second
  insert fails.\<close>

definition new_patient ::
  "upstream \<Rightarrow> string \<Rightarrow> string \<Rightarrow> store \<Rightarrow> string \<Rightarrow> string \<Rightarrow> string \<Rightarrow> string
    \<Rightarrow> patient_body \<Rightarrow> response \<times> store" where
  "new_patient up gen_id now s assistantProfileId hospitalId fullName' cnic' b =
     (let newProfile = \<lparr>p_id = gen_id, p_full_name = Some fullName', p_phone = phone b,
            p_gender = gender b, p_dob = dob b, p_role = ''patient'',
            p_approval_status = ''approved''\<rparr>
      in case insert_profile (up newProfileError) newProfile (profiles s) of
           None \<Rightarrow> ((500, ErrorJson ''Failed to create new patient profile''), s)
         | Some profiles' \<Rightarrow>
             if up newPpError
             then ((500, ErrorJson ''Patient profile created, but failed to link it to this hospital.''),
                   s\<lparr>profiles := profiles'\<rparr>)
             else
               let newPatientProfile = \<lparr>pp_profile_id = p_id newProfile,
                     pp_hospital_id = Some hospitalId, pp_cnic = cnic',
                     pp_created_by = Some assistantProfileId, pp_created_at = now\<rparr>
               in ((201, PatientJson ''created''
                     \<lparr>j_id = p_id newProfile, j_full_name = p_full_name newProfile,
                      j_phone = p_phone newProfile, j_gender = p_gender newProfile,
                      j_dob = p_dob newProfile, j_cnic = cnic',
                      j_created_at = pp_created_at newPatientProfile\<rparr>),
                   s\<lparr>profiles := profiles',
                     patient_profiles := patient_profiles s @ [newPatientProfile]\<rparr>))"

text \<open>The handler; \<open>req_profile\<close> is \<open>req.profile\<close>, set by the middleware.\<close>

definition post_patients ::
  "upstream \<Rightarrow> string \<Rightarrow> string \<Rightarrow> store \<Rightarrow> profile option \<Rightarrow> patient_body
    \<Rightarrow> response \<times> store" where
  "post_patients up gen_id now s req_profile b =
     (if \<not> truthy (fullName b) \<or> \<not> truthy (cnic b)
      then ((400, ErrorJson ''fullName and cnic are required fields''), s)
      else
        case (req_profile, fullName b, cnic b) of
          (Some profile', Some fullName', Some cnic') \<Rightarrow>
            (case assistant_hospital up s (p_id profile') of
               Inl r \<Rightarrow> (r, s)
             | Inr hospitalId \<Rightarrow>
                 if up existingPpError
                 then ((500, ErrorJson ''Failed to check existing patients''), s)
                 else
                   (case filter (\<lambda>r. pp_cnic r = cnic') (patient_profiles s) of
                      first_row # others \<Rightarrow>
                        existing_patient up s (p_id profile') hospitalId fullName' cnic' b
                          first_row (first_row # others)
                    | [] \<Rightarrow>
                        new_patient up gen_id now s (p_id profile') hospitalId fullName' cnic' b))
        | _ \<Rightarrow> ((401, ErrorJson ''Unauthorized''), s))"



section \<open>Middleware\<close>

record request =
  req_user :: "auth_user option"
  req_profile :: "profile option"

text \<open>The token of \<open>Authorization: Bearer <token>\<close>: \<open>authHeader.split(" ")[1]\<close>
  when the header starts with \<open>"Bearer "\<close>.\<close>

definition bearer_token :: "string option \<Rightarrow> string option" where
  "bearer_token authHeader =
     (case authHeader of
        None \<Rightarrow> None
      | Some h \<Rightarrow>
          if take 7 h = ''Bearer '' then Some (takeWhile (\<lambda>c. c \<noteq> CHR '' '') (drop 7 h))
          else None)"

text \<open>\<open>supabase.auth.getUser(token)\<close>: the account the session of the token belongs to.\<close>

definition getUser :: "store \<Rightarrow> string \<Rightarrow> auth_user option" where
  "getUser s token =
     (case map_of (sessions s) token of
        None \<Rightarrow> None
      | Some uid \<Rightarrow> find (\<lambda>u. u_id u = uid) (auth_users s))"

text \<open>A middleware answers the request (\<open>Inl\<close>) or calls \<open>next()\<close> (\<open>Inr\<close>).\<close>

definition authMiddleware :: "upstream \<Rightarrow> store \<Rightarrow> string option \<Rightarrow> response + request" where
  "authMiddleware up s authHeader =
     (case bearer_token authHeader of
        None \<Rightarrow> Inl (401, ErrorJson ''Missing or invalid token'')
      | Some token \<Rightarrow>
          (case (if up mw_userError then None else getUser s token) of
             None \<Rightarrow> Inl (401, ProviderErrorJson ''Invalid token'')
           | Some user \<Rightarrow>
               (case (if up mw_profileError then None
                      else single (filter (\<lambda>p. p_id p = u_id user) (profiles s))) of
                  None \<Rightarrow> Inl (403, ErrorJson ''Profile not found'')
                | Some profile' \<Rightarrow>
                    Inr \<lparr>req_user = Some user, req_profile = Some profile'\<rparr>)))"


definition requireApprovedRole :: "string list \<Rightarrow> request \<Rightarrow> response + request" where
  "requireApprovedRole roles req =
     (case req_profile req of
        None \<Rightarrow> Inl (403, ErrorJson ''Forbidden'')
      | Some profile' \<Rightarrow>
          if p_role profile' \<notin> set roles then Inl (403, ErrorJson ''Forbidden'')
          else if p_approval_status profile' \<noteq> ''approved''
          then Inl (403, ErrorJson ''Account is pending approval. Please wait.'')
          else Inr req)"

text \<open>\<open>router.use(authMiddleware, guard)\<close> in front of a handler.\<close>

definition router_use ::
  "upstream \<Rightarrow> (request \<Rightarrow> response + request) \<Rightarrow> store \<Rightarrow> string option
    \<Rightarrow> (request \<Rightarrow> response \<times> store) \<Rightarrow> response \<times> store" where
  "router_use up guard s authHeader handler =
     (case authMiddleware up s authHeader of
        Inl r \<Rightarrow> (r, s)
      | Inr req \<Rightarrow> (case guard req of Inl r \<Rightarrow> (r, s) | Inr req' \<Rightarrow> handler req'))"

section \<open>Approval workflow of the hospital admin\<close>

text \<open>\<open>update({approval_status: v}).eq("profile_id", i)\<close> on the two role tables.\<close>

definition set_doctor_status :: "string \<Rightarrow> string \<Rightarrow> doctor_profile list \<Rightarrow> doctor_profile list" where
  "set_doctor_status v i ds =
     map (\<lambda>d. if dp_profile_id d = i then d\<lparr>dp_approval_status := v\<rparr> else d) ds"

definition set_assistant_status ::
  "string \<Rightarrow> string \<Rightarrow> doctor_assistant_profile list \<Rightarrow> doctor_assistant_profile list" where
  "set_assistant_status v i as =
     map (\<lambda>a. if da_profile_id a = i then a\<lparr>da_approval_status := v\<rparr> else a) as"

text \<open>POST /api/hospital-admin/doctors/:profileId/approve\<close>

definition approve_doctor :: "upstream \<Rightarrow> store \<Rightarrow> string \<Rightarrow> response \<times> store" where
  "approve_doctor up s profileId =
     (if up docError then ((500, ErrorJson ''Failed to update doctor profile''), s)
      else
        let s1 = s\<lparr>doctor_profiles := set_doctor_status ''approved'' profileId (doctor_profiles s)\<rparr>
        in if up profError
           then ((500, ErrorJson ''Doctor approved but profile update failed''), s1)
           else ((200, SuccessJson),
                 s1\<lparr>profiles := set_profile_status ''approved'' profileId (profiles s1)\<rparr>))"

text \<open>POST /api/hospital-admin/doctors/:profileId/reject\<close>

definition reject_doctor :: "upstream \<Rightarrow> store \<Rightarrow> string \<Rightarrow> response \<times> store" where
  "reject_doctor up s profileId =
     (if up docError then ((500, ErrorJson ''Failed to update doctor profile''), s)
      else
        let s1 = s\<lparr>doctor_profiles := set_doctor_status ''rejected'' profileId (doctor_profiles s)\<rparr>
        in if up profError
           then ((500, ErrorJson ''Doctor rejected but profile update failed''), s1)
           else ((200, SuccessJson),
                 s1\<lparr>profiles := set_profile_status ''rejected'' profileId (profiles s1)\<rparr>))"

text \<open>POST /api/hospital-admin/assistants/:profileId/approve\<close>

definition approve_assistant :: "upstream \<Rightarrow> store \<Rightarrow> string \<Rightarrow> response \<times> store" where
  "approve_assistant up s profileId =
     (if up daError then ((500, ErrorJson ''Failed to update assistant link''), s)
      else
        let s1 = s\<lparr>doctor_assistant_profiles :=
                   set_assistant_status ''approved'' profileId (doctor_assistant_profiles s)\<rparr>
        in if up profError
           then ((500, ErrorJson ''Assistant approved but profile update failed''), s1)
           else ((200, SuccessJson),
                 s1\<lparr>profiles := set_profile_status ''approved'' profileId (profiles s1)\<rparr>))"

text \<open>POST /api/hospital-admin/assistants/:profileId/reject\<close>

definition reject_assistant :: "upstream \<Rightarrow> store \<Rightarrow> string \<Rightarrow> response \<times> store" where
  "reject_assistant up s profileId =
     (if up daError then ((500, ErrorJson ''Failed to update assistant link''), s)
      else
        let s1 = s\<lparr>doctor_assistant_profiles :=
                   set_assistant_status ''rejected'' profileId (doctor_assistant_profiles s)\<rparr>
        in if up profError
           then ((500, ErrorJson ''Assistant rejected but profile update failed''), s1)
           else ((200, SuccessJson),
                 s1\<lparr>profiles := set_profile_status ''rejected'' profileId (profiles s1)\<rparr>))"

text \<open>The four mutating routes of the router, behind
  \<open>router.use(authMiddleware, requireApprovedRole("hospital_admin"))\<close>.\<close>

datatype admin_route =
  DoctorApprove string | DoctorReject string | AssistantApprove string | AssistantReject string

definition hospital_admin_router ::
  "upstream \<Rightarrow> store \<Rightarrow> string option \<Rightarrow> admin_route \<Rightarrow> response \<times> store" where
  "hospital_admin_router up s authHeader route =
     router_use up (requireApprovedRole [''hospital_admin'']) s authHeader
       (\<lambda>req. case route of
                 DoctorApprove profileId \<Rightarrow> approve_doctor up s profileId
               | DoctorReject profileId \<Rightarrow> reject_doctor up s profileId
               | AssistantApprove profileId \<Rightarrow> approve_assistant up s profileId
               | AssistantReject profileId \<Rightarrow> reject_assistant up s profileId)"

text \<open>
  GET /api/hospital-admin/pending-doctors, the listing beside the four routes: the
  profile ids of the pending doctors of the hospitals the calling admin manages
  (the response's other columns are left out).
\<close>

definition pending_doctors :: "upstream \<Rightarrow> store \<Rightarrow> profile \<Rightarrow> response + string list" where
  "pending_doctors up s adminProfile =
     (if up hospError then Inl (500, ErrorJson ''Failed to fetch hospitals'')
      else
        let hospitalIds =
              map h_id (filter (\<lambda>h. h_admin_profile_id h = Some (p_id adminProfile)) (hospitals s))
        in if hospitalIds = [] then Inr []
           else if up docError then Inl (500, ErrorJson ''Failed to fetch doctors'')
           else
             let doctorProfiles =
                   filter (\<lambda>d. (case dp_hospital_id d of None \<Rightarrow> False
                                 | Some h \<Rightarrow> h \<in> set hospitalIds)
                               \<and> dp_approval_status d = ''pending'') (doctor_profiles s)
             in if doctorProfiles = [] then Inr []
                else if up profError then Inl (500, ErrorJson ''Failed to fetch profiles'')
                else Inr (map dp_profile_id doctorProfiles))"

section \<open>Approval workflow of the super admin\<close>

text \<open>POST /api/superadmin/hospital-admins/:profileId/approve\<close>

definition approve_hospital_admin :: "upstream \<Rightarrow> store \<Rightarrow> string \<Rightarrow> response \<times> store" where
  "approve_hospital_admin up s profileId =
     (if up profileError then ((500, ErrorJson ''Failed to update profile''), s)
      else ((200, SuccessJson),
            s\<lparr>profiles := set_profile_status ''approved'' profileId (profiles s)\<rparr>))"

text \<open>\<open>update({status: v}).eq("admin_profile_id", i)\<close> and \<open>.eq("id", i)\<close> on \<open>hospitals\<close>.\<close>

definition set_status_of_admin :: "string \<Rightarrow> string \<Rightarrow> hospital list \<Rightarrow> hospital list" where
  "set_status_of_admin v i hs =
     map (\<lambda>h. if h_admin_profile_id h = Some i then h\<lparr>h_status := v\<rparr> else h) hs"

definition set_hospital_status :: "string \<Rightarrow> string \<Rightarrow> hospital list \<Rightarrow> hospital list" where
  "set_hospital_status v i hs = map (\<lambda>h. if h_id h = i then h\<lparr>h_status := v\<rparr> else h) hs"

text \<open>POST /api/superadmin/hospital-admins/:profileId/reject\<close>

definition reject_hospital_admin :: "upstream \<Rightarrow> store \<Rightarrow> string \<Rightarrow> response \<times> store" where
  "reject_hospital_admin up s profileId =
     (if up profileError then ((500, ErrorJson ''Failed to update profile''), s)
      else
        let s1 = s\<lparr>profiles := set_profile_status ''rejected'' profileId (profiles s)\<rparr>
        in if up hospitalError
           then ((500, ErrorJson ''Profile rejected but hospital update failed''), s1)
           else ((200, SuccessJson),
                 s1\<lparr>hospitals := set_status_of_admin ''rejected'' profileId (hospitals s1)\<rparr>))"

text \<open>POST /api/superadmin/hospitals/:hospitalId/approve (its one call binds the error
  as \<open>error\<close>; it is the call \<open>hospitalError\<close> here).\<close>

definition approve_hospital :: "upstream \<Rightarrow> store \<Rightarrow> string \<Rightarrow> response \<times> store" where
  "approve_hospital up s hospitalId =
     (if up hospitalError then ((500, ErrorJson ''Failed to approve hospital''), s)
      else ((200, SuccessJson),
            s\<lparr>hospitals := set_hospital_status ''approved'' hospitalId (hospitals s)\<rparr>))"

section \<open>GET /api/profile/me\<close>

text \<open>\<open>a || d\<close> on an optional string and a default; \<open>a || null\<close>.\<close>

definition or_else :: "string option \<Rightarrow> string \<Rightarrow> string" where
  "or_else a d = (case a of None \<Rightarrow> d | Some v \<Rightarrow> if v = [] then d else v)"

definition or_null :: "string option \<Rightarrow> string option" where
  "or_null a = (if truthy a then a else None)"

text \<open>
  The handler that reads the token itself: an account without a profile row (or whose
  profile could not be read) gets one, with the role of the account's metadata or
  \<open>doctor\<close>.
\<close>

definition profile_me :: "upstream \<Rightarrow> store \<Rightarrow> string option \<Rightarrow> response \<times> store" where
  "profile_me up s authHeader =
     (case bearer_token authHeader of
        None \<Rightarrow> ((401, ErrorJson ''Missing or invalid token''), s)
      | Some token \<Rightarrow>
          (case (if up userError then None else getUser s token) of
             None \<Rightarrow> ((401, ProviderErrorJson ''Invalid token''), s)
           | Some user \<Rightarrow>
               (case (if up profileError then None
                      else single (filter (\<lambda>p. p_id p = u_id user) (profiles s))) of
                  Some profile' \<Rightarrow> ((200, UserProfileJson user profile'), s)
                | None \<Rightarrow>
                    let inferredRole = or_else (meta_role user) ''doctor'';
                        newProfile = \<lparr>p_id = u_id user,
                          p_full_name = Some (or_else (meta_full_name user) (u_email user)),
                          p_phone = or_null (meta_phone user),
                          p_gender = or_null (meta_gender user),
                          p_dob = or_null (meta_dob user),
                          p_role = inferredRole, p_approval_status = ''pending''\<rparr>
                    in (case insert_profile (up createError) newProfile (profiles s) of
                          None \<Rightarrow> ((500, ErrorJson ''Failed to create profile''), s)
                        | Some profiles' \<Rightarrow>
                            ((200, UserProfileJson user newProfile),
                             s\<lparr>profiles := profiles'\<rparr>)))))"

text \<open>
  The handler mounted behind \<open>authMiddleware\<close>: it provisions only when the middleware
  left \<open>req.profile\<close> empty, with the metadata's role when that is one of the five roles
  and \<open>patient\<close> otherwise.
\<close>

definition allowedRoles :: "string list" where
  "allowedRoles = [''super_admin'', ''hospital_admin'', ''doctor'', ''doctor_assistant'', ''patient'']"

definition profile_me_handler :: "upstream \<Rightarrow> store \<Rightarrow> request \<Rightarrow> response \<times> store" where
  "profile_me_handler up s req =
     (case req_user req of
        None \<Rightarrow> ((401, ErrorJson ''Unauthorized''), s)
      | Some user \<Rightarrow>
          (case req_profile req of
             Some profile' \<Rightarrow> ((200, UserProfileJson user profile'), s)
           | None \<Rightarrow>
               let metaRole = or_else (meta_role user) [];
                   inferredRole = (if metaRole \<in> set allowedRoles then metaRole else ''patient'');
                   newProfile = \<lparr>p_id = u_id user,
                     p_full_name = Some (or_else (meta_full_name user) (u_email user)),
                     p_phone = or_null (meta_phone user),
                     p_gender = or_null (meta_gender user),
                     p_dob = or_null (meta_dob user),
                     p_role = inferredRole, p_approval_status = ''pending''\<rparr>
               in (case insert_profile (up createError) newProfile (profiles s) of
                     None \<Rightarrow> ((500, ErrorJson ''Failed to create profile''), s)
                   | Some profiles' \<Rightarrow>
                       ((200, UserProfileJson user newProfile), s\<lparr>profiles := profiles'\<rparr>))))"

definition profile_me_guarded :: "upstream \<Rightarrow> store \<Rightarrow> string option \<Rightarrow> response \<times> store" where
  "profile_me_guarded up s authHeader =
     router_use up Inr s authHeader (profile_me_handler up s)"

section \<open>The doctor's and the assistant's routers\<close>






section \<open>A small installation\<close>

text \<open>
  Two hospitals with their admins, a doctor and an assistant each, and one registered
  patient; \<open>u9\<close> is an account that has no profile row yet.
\<close>

definition mk_profile :: "string \<Rightarrow> string \<Rightarrow> string \<Rightarrow> string \<Rightarrow> profile" where
  "mk_profile i n r st =
     \<lparr>p_id = i, p_full_name = Some n, p_phone = None, p_gender = None, p_dob = None,
      p_role = r, p_approval_status = st\<rparr>"

definition mk_user :: "string \<Rightarrow> string \<Rightarrow> string option \<Rightarrow> auth_user" where
  "mk_user i e r =
     \<lparr>u_id = i, u_email = e, meta_full_name = None, meta_phone = None, meta_gender = None,
      meta_dob = None, meta_role = r\<rparr>"

definition clinic :: store where
  "clinic =
     \<lparr>profiles =
        [mk_profile ''adm1'' ''Hina Raza'' ''hospital_admin'' ''approved'',
         mk_profile ''adm2'' ''Omar Sheikh'' ''hospital_admin'' ''pending'',
         mk_profile ''d1'' ''Dr Noor'' ''doctor'' ''approved'',
         mk_profile ''d2'' ''Dr Bilal'' ''doctor'' ''pending'',
         mk_profile ''a1'' ''Asma'' ''doctor_assistant'' ''pending'',
         mk_profile ''a2'' ''Zain'' ''doctor_assistant'' ''approved'',
         mk_profile ''p1'' ''Ali Khan'' ''patient'' ''approved''],
      patient_profiles =
        [\<lparr>pp_profile_id = ''p1'', pp_hospital_id = Some ''h1'', pp_cnic = ''12345-1234567-1'',
          pp_created_by = Some ''a1'', pp_created_at = ''2024-01-05T09:00:00Z''\<rparr>],
      doctor_profiles =
        [\<lparr>dp_profile_id = ''d1'', dp_specialization = Some ''Cardiology'',
          dp_hospital_id = Some ''h1'', dp_license_number = Some ''L-1'', dp_cnic = Some ''1-1'',
          dp_approval_status = ''approved''\<rparr>,
         \<lparr>dp_profile_id = ''d2'', dp_specialization = Some ''Dermatology'',
          dp_hospital_id = Some ''h2'', dp_license_number = Some ''L-2'', dp_cnic = Some ''2-2'',
          dp_approval_status = ''pending''\<rparr>],
      doctor_assistant_profiles =
        [\<lparr>da_profile_id = ''a1'', da_doctor_profile_id = Some ''d1'', da_hospital_id = Some ''h1'',
          da_approval_status = ''pending''\<rparr>,
         \<lparr>da_profile_id = ''a2'', da_doctor_profile_id = Some ''d2'', da_hospital_id = Some ''h2'',
          da_approval_status = ''approved''\<rparr>],
      hospitals =
        [\<lparr>h_id = ''h1'', h_name = ''City Hospital'', h_address = None, h_hospital_type = None,
          h_admin_profile_id = Some ''adm1'', h_status = ''approved''\<rparr>,
         \<lparr>h_id = ''h2'', h_name = ''Lake Clinic'', h_address = None, h_hospital_type = None,
          h_admin_profile_id = Some ''adm2'', h_status = ''pending''\<rparr>],
      auth_users =
        [mk_user ''adm1'' ''hina@city.example'' (Some ''hospital_admin''),
         mk_user ''adm2'' ''omar@lake.example'' (Some ''hospital_admin''),
         mk_user ''d1'' ''noor@city.example'' (Some ''doctor''),
         mk_user ''d2'' ''bilal@lake.example'' (Some ''doctor''),
         mk_user ''a1'' ''asma@city.example'' (Some ''doctor_assistant''),
         mk_user ''a2'' ''zain@lake.example'' (Some ''doctor_assistant''),
         mk_user ''u9'' ''new@mail.example'' None],
      sessions =
        [(''tok-adm1'', ''adm1''), (''tok-adm2'', ''adm2''), (''tok-d2'', ''d2''),
         (''tok-a1'', ''a1''), (''tok-a2'', ''a2''), (''tok-u9'', ''u9'')]\<rparr>"

definition submission :: "string \<Rightarrow> string \<Rightarrow> patient_body" where
  "submission n c = \<lparr>fullName = Some n, cnic = Some c, phone = None, gender = None, dob = None\<rparr>"

definition no_faults :: upstream where
  "no_faults = (\<lambda>e. False)"

text \<open>The assistant \<open>a\<close> has one link row, and it names the hospital \<open>h\<close>.\<close>

definition linked_to :: "store \<Rightarrow> string \<Rightarrow> string \<Rightarrow> bool" where
  "linked_to s a h =
     (case filter (\<lambda>r. da_profile_id r = a) (doctor_assistant_profiles s) of
        [l] \<Rightarrow> da_hospital_id l = Some h \<and> h \<noteq> []
      | _ \<Rightarrow> False)"

text \<open>Only the call behind \<open>e\<close> is answered with an error.\<close>

definition only_fails :: "call_error \<Rightarrow> upstream" where
  "only_fails e = (\<lambda>x. x = e)"


section \<open>Facts about the reconciliation handler\<close>

lemma assistant_hospital_linked:
  "linked_to s a h \<Longrightarrow> \<not> up assistantLinkError \<Longrightarrow> assistant_hospital up s a = Inr h"
  by (auto simp: linked_to_def assistant_hospital_def split: list.splits)

lemma assistant_hospital_Inr:
  "assistant_hospital up s a = Inr h \<Longrightarrow> linked_to s a h \<and> \<not> up assistantLinkError"
  by (auto simp: linked_to_def assistant_hospital_def split: list.splits option.splits if_splits)

lemma linked_to_unique: "linked_to s a h \<Longrightarrow> linked_to s a h' \<Longrightarrow> h = h'"
  by (auto simp: linked_to_def split: list.splits)

lemma normalize_ali: "normalize_name ''Ali Khan'' = ''ali khan''"
  by code_simp

lemma normalize_sara: "normalize_name ''Sara Ahmed'' = ''sara ahmed''"
  by code_simp

lemma clinic_a1: "linked_to clinic ''a1'' ''h1''"
  by (simp add: linked_to_def clinic_def)

lemma clinic_a2: "linked_to clinic ''a2'' ''h2''"
  by (simp add: linked_to_def clinic_def)


lemma filter_relink:
  "filter (\<lambda>r. pp_cnic r = c) (relink h a i c' rows)
     = relink h a i c' (filter (\<lambda>r. pp_cnic r = c) rows)"
  by (induction rows) (auto simp: relink_def)

lemma existing_patient_not_created:
  "existing_patient up s a h fn cn b r rs \<noteq> ((st, PatientJson ''created'' pj), s1)"
  by (auto simp: existing_patient_def Let_def split: option.splits if_splits)

lemma created_cases:
  assumes "post_patients up gen_id now s (Some a) b = ((st, PatientJson ''created'' pj), s1)"
  obtains fn cn h where "fullName b = Some fn" "fn \<noteq> []" "cnic b = Some cn" "cn \<noteq> []"
    "linked_to s (p_id a) h"
    "filter (\<lambda>r. pp_cnic r = cn) (patient_profiles s) = []"
    "new_patient up gen_id now s (p_id a) h fn cn b = ((st, PatientJson ''created'' pj), s1)"
proof -
  from assms obtain fn cn where b: "fullName b = Some fn" "fn \<noteq> []" "cnic b = Some cn" "cn \<noteq> []"
    by (cases "fullName b"; cases "cnic b") (auto simp: post_patients_def split: if_splits)
  from assms b obtain h where h: "assistant_hospital up s (p_id a) = Inr h"
    by (cases "assistant_hospital up s (p_id a)")
       (auto simp: post_patients_def assistant_hospital_def split: option.splits if_splits)
  from assms b h have e: "filter (\<lambda>r. pp_cnic r = cn) (patient_profiles s) = []"
    by (cases "filter (\<lambda>r. pp_cnic r = cn) (patient_profiles s)")
       (auto simp: post_patients_def existing_patient_not_created split: if_splits)
  from assms b h e
  have "new_patient up gen_id now s (p_id a) h fn cn b = ((st, PatientJson ''created'' pj), s1)"
    by (auto simp: post_patients_def split: if_splits)
  with b h e that show thesis
    using assistant_hospital_Inr by blast
qed


text \<open>
  C1. A linked assistant submits a name and a CNIC; rows with the CNIC exist, and the
  profile of the first of them has a non-empty \<open>full_name\<close> whose normal form differs
  from that of the submitted name. Then the answer is 400 with the name-mismatch error
  and the store is as before.
\<close>

theorem name_mismatch_rejected:
  assumes "fullName b = Some fn" "fn \<noteq> []" "cnic b = Some cn" "cn \<noteq> []"
    and "linked_to s (p_id assistant) hospitalId" "\<not> up assistantLinkError"
    and "\<not> up existingPpError" "\<not> up existingProfileError"
    and "filter (\<lambda>r. pp_cnic r = cn) (patient_profiles s) = first_row # others"
    and "single (filter (\<lambda>p. p_id p = pp_profile_id first_row) (profiles s)) = Some canonical"
    and "p_full_name canonical = Some nm" "nm \<noteq> []" "normalize_name nm \<noteq> normalize_name fn"
  shows "post_patients up gen_id now s (Some assistant) b
           = ((400, ErrorJson name_mismatch_message), s)"
  using assms by (simp add: post_patients_def existing_patient_def assistant_hospital_linked)

theorem name_mismatch_rejected_witness:
  "post_patients no_faults ''p2'' ''2024-02-01T10:00:00Z'' clinic
     (Some (mk_profile ''a1'' ''Asma'' ''doctor_assistant'' ''pending''))
     (submission ''Sara Ahmed'' ''12345-1234567-1'')
   = ((400, ErrorJson name_mismatch_message), clinic)"
proof -
  let ?row = "\<lparr>pp_profile_id = ''p1'', pp_hospital_id = Some ''h1'', pp_cnic = ''12345-1234567-1'',
          pp_created_by = Some ''a1'', pp_created_at = ''2024-01-05T09:00:00Z''\<rparr>"
  have rows: "filter (\<lambda>r. pp_cnic r = ''12345-1234567-1'') (patient_profiles clinic) = ?row # []"
    by (simp add: clinic_def)
  have prof: "single (filter (\<lambda>p. p_id p = pp_profile_id ?row) (profiles clinic))
                = Some (mk_profile ''p1'' ''Ali Khan'' ''patient'' ''approved'')"
    by (simp add: clinic_def mk_profile_def)
  have l: "linked_to clinic (p_id (mk_profile ''a1'' ''Asma'' ''doctor_assistant'' ''pending'')) ''h1''"
    by (simp add: mk_profile_def clinic_a1)
  show ?thesis
    by (rule name_mismatch_rejected [where fn = "''Sara Ahmed''" and cn = "''12345-1234567-1''" and nm = "''Ali Khan''",
          OF _ _ _ _ l _ _ _ rows prof])
       (simp_all add: submission_def no_faults_def mk_profile_def normalize_ali normalize_sara)
qed

text \<open>
  C2. When a submission is answered \<open>created\<close> with the patient \<open>pj\<close>, the same
  submission sent again by an assistant of the same hospital is answered
  \<open>already_exists\<close> with the same patient (its id is the created one), the store is as
  the first call left it, and it holds exactly one row for the CNIC and the hospital.
\<close>

theorem repeat_submission_already_exists:
  assumes first: "post_patients up gen_id now s (Some a) b = ((st, PatientJson ''created'' pj), s1)"
    and same: "linked_to s (p_id a) h" "linked_to s (p_id a') h"
    and reads: "\<not> up' assistantLinkError" "\<not> up' existingPpError" "\<not> up' existingProfileError"
  shows "post_patients up' gen_id' now' s1 (Some a') b
           = ((200, PatientJson ''already_exists'' pj), s1)
         \<and> j_id pj = gen_id
         \<and> length (filter (\<lambda>r. pp_cnic r = j_cnic pj \<and> pp_hospital_id r = Some h)
              (patient_profiles s1)) = 1"
proof -
  from first obtain fn cn h0 where b: "fullName b = Some fn" "fn \<noteq> []" "cnic b = Some cn" "cn \<noteq> []"
    and h0: "linked_to s (p_id a) h0"
    and e: "filter (\<lambda>r. pp_cnic r = cn) (patient_profiles s) = []"
    and n: "new_patient up gen_id now s (p_id a) h0 fn cn b = ((st, PatientJson ''created'' pj), s1)"
    by (rule created_cases)
  have hh: "h0 = h" using h0 same(1) by (rule linked_to_unique)
  let ?np = "\<lparr>p_id = gen_id, p_full_name = Some fn, p_phone = phone b, p_gender = gender b,
             p_dob = dob b, p_role = ''patient'', p_approval_status = ''approved''\<rparr>"
  let ?row = "\<lparr>pp_profile_id = gen_id, pp_hospital_id = Some h, pp_cnic = cn,
             pp_created_by = Some (p_id a), pp_created_at = now\<rparr>"
  from n hh have fresh: "gen_id \<notin> set (map p_id (profiles s))"
    and pj: "pj = \<lparr>j_id = gen_id, j_full_name = Some fn, j_phone = phone b, j_gender = gender b,
          j_dob = dob b, j_cnic = cn, j_created_at = now\<rparr>"
    and s1: "s1 = s\<lparr>profiles := profiles s @ [?np], patient_profiles := patient_profiles s @ [?row]\<rparr>"
    by (auto simp: new_patient_def Let_def insert_profile_def split: if_splits)
  have l: "linked_to s1 (p_id a') h"
    using same(2) by (simp add: s1 linked_to_def)
  have rows: "filter (\<lambda>r. pp_cnic r = cn) (patient_profiles s1) = [?row]"
    using e by (simp add: s1)
  have "filter (\<lambda>p. p_id p = gen_id) (profiles s) = []"
    using fresh by (auto simp: filter_empty_conv)
  then have prof: "single (filter (\<lambda>p. p_id p = gen_id) (profiles s1)) = Some ?np"
    by (simp add: s1)
  have pay: "updatePayload ?np fn b = no_patch"
    using b by (simp add: updatePayload_def no_patch_def)
  have pat: "patient_of gen_id fn cn b ?np now = pj"
    by (cases "phone b"; cases "gender b"; cases "dob b")
       (simp_all add: patient_of_def pj nullish_def)
  have "existing_patient up' s1 (p_id a') h fn cn b ?row [?row]
          = ((200, PatientJson ''already_exists'' pj), s1)"
    using reads prof b pay pat
    by (simp add: existing_patient_def Let_def refresh_demographics_def)
  then have "post_patients up' gen_id' now' s1 (Some a') b
           = ((200, PatientJson ''already_exists'' pj), s1)"
    using b l reads rows
    by (simp add: post_patients_def assistant_hospital_linked)
  moreover have "filter (\<lambda>r. pp_cnic r = cn \<and> pp_hospital_id r = Some h) (patient_profiles s)
      = filter (\<lambda>r. pp_hospital_id r = Some h) (filter (\<lambda>r. pp_cnic r = cn) (patient_profiles s))"
    by (simp add: conj_commute)
  then have "length (filter (\<lambda>r. pp_cnic r = j_cnic pj \<and> pp_hospital_id r = Some h)
              (patient_profiles s1)) = 1"
    by (simp add: s1 pj e)
  ultimately show ?thesis
    by (simp add: pj)
qed

theorem repeat_submission_already_exists_witness:
  "\<exists>pj s1.
     post_patients no_faults ''p2'' ''2024-02-01T10:00:00Z'' clinic
       (Some (mk_profile ''a1'' ''Asma'' ''doctor_assistant'' ''pending''))
       (submission ''John Doe'' ''111-1-1'') = ((201, PatientJson ''created'' pj), s1)
     \<and> post_patients no_faults ''p3'' ''2024-02-01T10:05:00Z'' s1
       (Some (mk_profile ''a1'' ''Asma'' ''doctor_assistant'' ''pending''))
       (submission ''John Doe'' ''111-1-1'') = ((200, PatientJson ''already_exists'' pj), s1)
     \<and> j_id pj = ''p2''
     \<and> length (filter (\<lambda>r. pp_cnic r = j_cnic pj \<and> pp_hospital_id r = Some ''h1'')
              (patient_profiles s1)) = 1"
proof -
  let ?a = "mk_profile ''a1'' ''Asma'' ''doctor_assistant'' ''pending''"
  let ?b = "submission ''John Doe'' ''111-1-1''"
  obtain pj s1 where
    first: "post_patients no_faults ''p2'' ''2024-02-01T10:00:00Z'' clinic (Some ?a) ?b
              = ((201, PatientJson ''created'' pj), s1)"
    by (simp add: post_patients_def submission_def mk_profile_def assistant_hospital_def
        no_faults_def clinic_def new_patient_def insert_profile_def)
  have l: "linked_to clinic (p_id ?a) ''h1''"
    by (simp add: mk_profile_def clinic_a1)
  have n: "\<not> no_faults assistantLinkError" "\<not> no_faults existingPpError"
    "\<not> no_faults existingProfileError"
    by (simp_all add: no_faults_def)
  from repeat_submission_already_exists [OF first l l n] first show ?thesis
    by blast
qed

text \<open>
  C3. Rows with the CNIC exist, the name check passes and no row is of the caller's
  hospital. Then the answer is \<open>linked\<close> with the first row's profile id and creation
  time; afterwards the first row with the CNIC is the old first row with the caller's
  hospital and the caller as \<open>created_by\<close> (its \<open>created_at\<close> untouched), and the table has
  as many rows as before.
\<close>

theorem relink_first_row:
  assumes "fullName b = Some fn" "fn \<noteq> []" "cnic b = Some cn" "cn \<noteq> []"
    and "linked_to s (p_id assistant) hospitalId" "\<not> up assistantLinkError"
    and "\<not> up existingPpError" "\<not> up existingProfileError" "\<not> up updateLinkError"
    and "filter (\<lambda>r. pp_cnic r = cn) (patient_profiles s) = first_row # others"
    and "single (filter (\<lambda>p. p_id p = pp_profile_id first_row) (profiles s)) = Some canonical"
    and "\<not> truthy (p_full_name canonical)
         \<or> map_option normalize_name (p_full_name canonical) = Some (normalize_name fn)"
    and "\<forall>r \<in> set (first_row # others). pp_hospital_id r \<noteq> Some hospitalId"
    and "post_patients up gen_id now s (Some assistant) b = (res, s')"
  shows "\<exists>pj rest. res = (200, PatientJson ''linked'' pj)
           \<and> j_id pj = pp_profile_id first_row
           \<and> j_created_at pj = pp_created_at first_row
           \<and> filter (\<lambda>r. pp_cnic r = cn) (patient_profiles s')
               = first_row\<lparr>pp_hospital_id := Some hospitalId,
                            pp_created_by := Some (p_id assistant)\<rparr> # rest
           \<and> length rest = length others
           \<and> length (patient_profiles s') = length (patient_profiles s)"
proof -
  let ?s1 = "refresh_demographics up s (pp_profile_id first_row) (updatePayload canonical fn b)"
  have pp: "patient_profiles ?s1 = patient_profiles s"
    by (simp add: refresh_demographics_def)
  have nf: "find (\<lambda>p. pp_hospital_id p = Some hospitalId) (first_row # others) = None"
    using assms(13) by (simp add: find_None_iff)
  have "post_patients up gen_id now s (Some assistant) b =
     ((200, PatientJson ''linked''
        (patient_of (pp_profile_id first_row) fn cn b canonical (pp_created_at first_row))),
      ?s1\<lparr>patient_profiles :=
        relink hospitalId (p_id assistant) (pp_profile_id first_row) cn (patient_profiles ?s1)\<rparr>)"
    using assms(1-12) nf
    by (auto simp add: post_patients_def existing_patient_def assistant_hospital_linked Let_def
        simp del: find.simps)
  with assms(14) have res: "res = (200, PatientJson ''linked''
        (patient_of (pp_profile_id first_row) fn cn b canonical (pp_created_at first_row)))"
    and s': "patient_profiles s'
       = relink hospitalId (p_id assistant) (pp_profile_id first_row) cn (patient_profiles s)"
    using pp by auto
  have c: "pp_cnic first_row = cn"
    using assms(10) by (metis (mono_tags, lifting) Cons_eq_filterD)
  have "filter (\<lambda>r. pp_cnic r = cn) (patient_profiles s')
      = relink hospitalId (p_id assistant) (pp_profile_id first_row) cn (first_row # others)"
    by (simp add: s' filter_relink assms(10))
  also have "\<dots> = first_row\<lparr>pp_hospital_id := Some hospitalId,
                            pp_created_by := Some (p_id assistant)\<rparr>
       # relink hospitalId (p_id assistant) (pp_profile_id first_row) cn others"
    using c by (simp add: relink_def)
  finally show ?thesis
    using res s' by (simp add: patient_of_def relink_def)
qed

theorem relink_first_row_witness:
  "\<exists>pj rest s'.
     post_patients no_faults ''p2'' ''2024-02-01T10:00:00Z'' clinic
       (Some (mk_profile ''a2'' ''Zain'' ''doctor_assistant'' ''approved''))
       (submission ''ali   KHAN'' ''12345-1234567-1'') = ((200, PatientJson ''linked'' pj), s')
     \<and> j_id pj = ''p1'' \<and> j_created_at pj = ''2024-01-05T09:00:00Z''
     \<and> filter (\<lambda>r. pp_cnic r = ''12345-1234567-1'') (patient_profiles s')
         = \<lparr>pp_profile_id = ''p1'', pp_hospital_id = Some ''h2'', pp_cnic = ''12345-1234567-1'',
            pp_created_by = Some ''a2'', pp_created_at = ''2024-01-05T09:00:00Z''\<rparr> # rest
     \<and> length (patient_profiles s') = 1"
proof -
  let ?row = "\<lparr>pp_profile_id = ''p1'', pp_hospital_id = Some ''h1'', pp_cnic = ''12345-1234567-1'',
          pp_created_by = Some ''a1'', pp_created_at = ''2024-01-05T09:00:00Z''\<rparr>"
  let ?a = "mk_profile ''a2'' ''Zain'' ''doctor_assistant'' ''approved''"
  let ?b = "submission ''ali   KHAN'' ''12345-1234567-1''"
  obtain res s' where r: "post_patients no_faults ''p2'' ''2024-02-01T10:00:00Z'' clinic (Some ?a) ?b = (res, s')"
    by (cases "post_patients no_faults ''p2'' ''2024-02-01T10:00:00Z'' clinic (Some ?a) ?b")
  have rows: "filter (\<lambda>r. pp_cnic r = ''12345-1234567-1'') (patient_profiles clinic) = ?row # []"
    by (simp add: clinic_def)
  have prof: "single (filter (\<lambda>p. p_id p = pp_profile_id ?row) (profiles clinic))
                = Some (mk_profile ''p1'' ''Ali Khan'' ''patient'' ''approved'')"
    by (simp add: clinic_def mk_profile_def)
  have l: "linked_to clinic (p_id ?a) ''h2''"
    by (simp add: mk_profile_def clinic_a2)
  have n: "normalize_name ''ali   KHAN'' = ''ali khan''"
    by code_simp
  have "\<exists>pj rest. res = (200, PatientJson ''linked'' pj)
           \<and> j_id pj = pp_profile_id ?row
           \<and> j_created_at pj = pp_created_at ?row
           \<and> filter (\<lambda>r. pp_cnic r = ''12345-1234567-1'') (patient_profiles s')
               = ?row\<lparr>pp_hospital_id := Some ''h2'', pp_created_by := Some (p_id ?a)\<rparr> # rest
           \<and> length rest = length ([] :: patient_profile list)
           \<and> length (patient_profiles s') = length (patient_profiles clinic)"
    by (rule relink_first_row [where fn = "''ali   KHAN''" and b = ?b and up = no_faults,
          OF _ _ _ _ l _ _ _ _ rows prof _ _ r])
       (simp_all add: submission_def no_faults_def mk_profile_def normalize_ali n)
  then show ?thesis
    using r by (auto simp: mk_profile_def clinic_def)
qed


text \<open>
  C4. A linked assistant submits a CNIC no row has, and the store takes both inserts
  (the generated id is new). Then the answer is 201 \<open>created\<close>; the store has one more
  profile, a patient that is approved at once, and one more patient row with that
  profile id, the CNIC, the caller's hospital and the caller as \<open>created_by\<close>.
\<close>

theorem create_new_patient:
  assumes "fullName b = Some fn" "fn \<noteq> []" "cnic b = Some cn" "cn \<noteq> []"
    and "linked_to s (p_id assistant) hospitalId" "\<not> up assistantLinkError"
    and "\<not> up existingPpError" "\<not> up newProfileError" "\<not> up newPpError"
    and "gen_id \<notin> set (map p_id (profiles s))"
    and "filter (\<lambda>r. pp_cnic r = cn) (patient_profiles s) = []"
  shows "post_patients up gen_id now s (Some assistant) b =
     ((201, PatientJson ''created''
         \<lparr>j_id = gen_id, j_full_name = Some fn, j_phone = phone b, j_gender = gender b,
          j_dob = dob b, j_cnic = cn, j_created_at = now\<rparr>),
      s\<lparr>profiles := profiles s @
           [\<lparr>p_id = gen_id, p_full_name = Some fn, p_phone = phone b, p_gender = gender b,
             p_dob = dob b, p_role = ''patient'', p_approval_status = ''approved''\<rparr>],
        patient_profiles := patient_profiles s @
           [\<lparr>pp_profile_id = gen_id, pp_hospital_id = Some hospitalId, pp_cnic = cn,
             pp_created_by = Some (p_id assistant), pp_created_at = now\<rparr>]\<rparr>)"
  using assms
  by (simp add: post_patients_def new_patient_def assistant_hospital_linked Let_def
      insert_profile_def)

theorem create_new_patient_witness:
  "post_patients no_faults ''p2'' ''2024-02-01T10:00:00Z'' clinic
     (Some (mk_profile ''a1'' ''Asma'' ''doctor_assistant'' ''pending''))
     (submission ''John Doe'' ''111-1-1'') =
     ((201, PatientJson ''created''
         \<lparr>j_id = ''p2'', j_full_name = Some ''John Doe'', j_phone = None, j_gender = None,
          j_dob = None, j_cnic = ''111-1-1'', j_created_at = ''2024-02-01T10:00:00Z''\<rparr>),
      clinic\<lparr>profiles := profiles clinic @ [mk_profile ''p2'' ''John Doe'' ''patient'' ''approved''],
        patient_profiles := patient_profiles clinic @
           [\<lparr>pp_profile_id = ''p2'', pp_hospital_id = Some ''h1'', pp_cnic = ''111-1-1'',
             pp_created_by = Some ''a1'', pp_created_at = ''2024-02-01T10:00:00Z''\<rparr>]\<rparr>)"
proof -
  have l: "linked_to clinic (p_id (mk_profile ''a1'' ''Asma'' ''doctor_assistant'' ''pending'')) ''h1''"
    by (simp add: mk_profile_def clinic_a1)
  have fresh: "''p2'' \<notin> set (map p_id (profiles clinic))"
    by (simp add: clinic_def mk_profile_def)
  have none: "filter (\<lambda>r. pp_cnic r = ''111-1-1'') (patient_profiles clinic) = []"
    by (simp add: clinic_def)
  have "post_patients no_faults ''p2'' ''2024-02-01T10:00:00Z'' clinic
     (Some (mk_profile ''a1'' ''Asma'' ''doctor_assistant'' ''pending''))
     (submission ''John Doe'' ''111-1-1'') =
     ((201, PatientJson ''created''
         \<lparr>j_id = ''p2'', j_full_name = Some ''John Doe'',
          j_phone = phone (submission ''John Doe'' ''111-1-1''),
          j_gender = gender (submission ''John Doe'' ''111-1-1''),
          j_dob = dob (submission ''John Doe'' ''111-1-1''), j_cnic = ''111-1-1'',
          j_created_at = ''2024-02-01T10:00:00Z''\<rparr>),
      clinic\<lparr>profiles := profiles clinic @
           [\<lparr>p_id = ''p2'', p_full_name = Some ''John Doe'',
             p_phone = phone (submission ''John Doe'' ''111-1-1''),
             p_gender = gender (submission ''John Doe'' ''111-1-1''),
             p_dob = dob (submission ''John Doe'' ''111-1-1''), p_role = ''patient'',
             p_approval_status = ''approved''\<rparr>],
        patient_profiles := patient_profiles clinic @
           [\<lparr>pp_profile_id = ''p2'', pp_hospital_id = Some ''h1'', pp_cnic = ''111-1-1'',
             pp_created_by = Some (p_id (mk_profile ''a1'' ''Asma'' ''doctor_assistant'' ''pending'')),
             pp_created_at = ''2024-02-01T10:00:00Z''\<rparr>]\<rparr>)"
    by (rule create_new_patient [OF _ _ _ _ l _ _ _ _ fresh none])
       (simp_all add: submission_def no_faults_def)
  then show ?thesis
    by (simp add: submission_def mk_profile_def)
qed

section \<open>Facts about the approval workflow\<close>

lemma set_profile_status_eq:
  "set_profile_status v i ps = map (\<lambda>p. if p_id p = i then p\<lparr>p_approval_status := v\<rparr> else p) ps"
  by (simp add: set_profile_status_def update_profiles_def patch_profile_def no_patch_def)


lemma set_status_of_admin_Cons:
  "set_status_of_admin v i (a # hs) =
     (if h_admin_profile_id a = Some i then a\<lparr>h_status := v\<rparr> else a) # set_status_of_admin v i hs"
  by (simp add: set_status_of_admin_def)

lemma set_status_of_admin_sets:
  "h \<in> set (set_status_of_admin v i hs) \<Longrightarrow> h_admin_profile_id h = Some i \<Longrightarrow> h_status h = v"
proof (induction hs)
  case Nil
  then show ?case by (simp add: set_status_of_admin_def)
next
  case (Cons a hs)
  from Cons.prems(1)
  have "h = (if h_admin_profile_id a = Some i then a\<lparr>h_status := v\<rparr> else a)
        \<or> h \<in> set (set_status_of_admin v i hs)"
    unfolding set_status_of_admin_Cons by (rule set_ConsD [THEN disjE]) blast+
  then show ?case
  proof
    assume "h = (if h_admin_profile_id a = Some i then a\<lparr>h_status := v\<rparr> else a)"
    with Cons.prems(2) show ?thesis
      by (cases "h_admin_profile_id a = Some i") simp_all
  next
    assume "h \<in> set (set_status_of_admin v i hs)"
    then show ?thesis using Cons.prems(2) by (rule Cons.IH)
  qed
qed

lemma set_profile_status_Cons:
  "set_profile_status v i (a # ps) =
     (if p_id a = i then a\<lparr>p_approval_status := v\<rparr> else a) # set_profile_status v i ps"
  by (simp add: set_profile_status_eq)

lemma set_profile_status_sets:
  "p \<in> set (set_profile_status v i ps) \<Longrightarrow> p_id p = i \<Longrightarrow> p_approval_status p = v"
proof (induction ps)
  case Nil
  then show ?case by (simp add: set_profile_status_eq)
next
  case (Cons a ps)
  from Cons.prems(1)
  have "p = (if p_id a = i then a\<lparr>p_approval_status := v\<rparr> else a)
        \<or> p \<in> set (set_profile_status v i ps)"
    unfolding set_profile_status_Cons by (rule set_ConsD [THEN disjE]) blast+
  then show ?case
  proof
    assume "p = (if p_id a = i then a\<lparr>p_approval_status := v\<rparr> else a)"
    with Cons.prems(2) show ?thesis
      by (cases "p_id a = i") simp_all
  next
    assume "p \<in> set (set_profile_status v i ps)"
    then show ?thesis using Cons.prems(2) by (rule Cons.IH)
  qed
qed


text \<open>The outcomes of each coupled handler, with the rows of both tables written out.\<close>

lemma set_doctor_status_Cons:
  "set_doctor_status v i (a # ds) =
     (if dp_profile_id a = i then a\<lparr>dp_approval_status := v\<rparr> else a) # set_doctor_status v i ds"
  by (simp add: set_doctor_status_def)

lemma set_doctor_status_sets:
  "d \<in> set (set_doctor_status v i ds) \<Longrightarrow> dp_profile_id d = i \<Longrightarrow> dp_approval_status d = v"
proof (induction ds)
  case Nil
  then show ?case by (simp add: set_doctor_status_def)
next
  case (Cons a ds)
  from Cons.prems(1)
  have "d = (if dp_profile_id a = i then a\<lparr>dp_approval_status := v\<rparr> else a)
        \<or> d \<in> set (set_doctor_status v i ds)"
    unfolding set_doctor_status_Cons by (rule set_ConsD [THEN disjE]) blast+
  then show ?case
  proof
    assume "d = (if dp_profile_id a = i then a\<lparr>dp_approval_status := v\<rparr> else a)"
    with Cons.prems(2) show ?thesis
      by (cases "dp_profile_id a = i") simp_all
  next
    assume "d \<in> set (set_doctor_status v i ds)"
    then show ?thesis using Cons.prems(2) by (rule Cons.IH)
  qed
qed

lemma set_assistant_status_Cons:
  "set_assistant_status v i (a # as) =
     (if da_profile_id a = i then a\<lparr>da_approval_status := v\<rparr> else a)
       # set_assistant_status v i as"
  by (simp add: set_assistant_status_def)

lemma set_assistant_status_sets:
  "d \<in> set (set_assistant_status v i as) \<Longrightarrow> da_profile_id d = i \<Longrightarrow> da_approval_status d = v"
proof (induction as)
  case Nil
  then show ?case by (simp add: set_assistant_status_def)
next
  case (Cons a as)
  from Cons.prems(1)
  have "d = (if da_profile_id a = i then a\<lparr>da_approval_status := v\<rparr> else a)
        \<or> d \<in> set (set_assistant_status v i as)"
    unfolding set_assistant_status_Cons by (rule set_ConsD [THEN disjE]) blast+
  then show ?case
  proof
    assume "d = (if da_profile_id a = i then a\<lparr>da_approval_status := v\<rparr> else a)"
    with Cons.prems(2) show ?thesis
      by (cases "da_profile_id a = i") simp_all
  next
    assume "d \<in> set (set_assistant_status v i as)"
    then show ?thesis using Cons.prems(2) by (rule Cons.IH)
  qed
qed

lemma approve_doctor_outcomes:
  "(up docError \<longrightarrow> approve_doctor up s i = ((500, ErrorJson ''Failed to update doctor profile''), s))
   \<and> (\<not> up docError \<and> up profError \<longrightarrow>
        approve_doctor up s i =
          ((500, ErrorJson ''Doctor approved but profile update failed''),
           s\<lparr>doctor_profiles :=
               map (\<lambda>r. if dp_profile_id r = i then r\<lparr>dp_approval_status := ''approved''\<rparr> else r)
                 (doctor_profiles s)\<rparr>))
   \<and> (\<not> up docError \<and> \<not> up profError \<longrightarrow>
        approve_doctor up s i =
          ((200, SuccessJson),
           s\<lparr>doctor_profiles :=
               map (\<lambda>r. if dp_profile_id r = i then r\<lparr>dp_approval_status := ''approved''\<rparr> else r)
                 (doctor_profiles s),
             profiles :=
               map (\<lambda>p. if p_id p = i then p\<lparr>p_approval_status := ''approved''\<rparr> else p)
                 (profiles s)\<rparr>))
   \<and> (\<not> up docError \<longrightarrow>
        (\<forall>r \<in> set (doctor_profiles (snd (approve_doctor up s i))).
           dp_profile_id r = i \<longrightarrow> dp_approval_status r = ''approved''))"
proof -
  have sets: "\<forall>r \<in> set (set_doctor_status ''approved'' i (doctor_profiles s)).
      dp_profile_id r = i \<longrightarrow> dp_approval_status r = ''approved''"
    by (blast intro: set_doctor_status_sets)
  have t: "\<not> up docError \<Longrightarrow>
      doctor_profiles (snd (approve_doctor up s i)) = set_doctor_status ''approved'' i (doctor_profiles s)"
    by (simp add: approve_doctor_def Let_def)
  have 1: "up docError \<longrightarrow> approve_doctor up s i = ((500, ErrorJson ''Failed to update doctor profile''), s)"
    by (simp add: approve_doctor_def)
  have 2: "\<not> up docError \<and> up profError \<longrightarrow>
        approve_doctor up s i =
          ((500, ErrorJson ''Doctor approved but profile update failed''),
           s\<lparr>doctor_profiles :=
               map (\<lambda>r. if dp_profile_id r = i then r\<lparr>dp_approval_status := ''approved''\<rparr> else r)
                 (doctor_profiles s)\<rparr>)"
    by (simp add: approve_doctor_def Let_def set_doctor_status_def)
  have 3: "\<not> up docError \<and> \<not> up profError \<longrightarrow>
        approve_doctor up s i =
          ((200, SuccessJson),
           s\<lparr>doctor_profiles :=
               map (\<lambda>r. if dp_profile_id r = i then r\<lparr>dp_approval_status := ''approved''\<rparr> else r)
                 (doctor_profiles s),
             profiles :=
               map (\<lambda>p. if p_id p = i then p\<lparr>p_approval_status := ''approved''\<rparr> else p)
                 (profiles s)\<rparr>)"
    by (simp add: approve_doctor_def Let_def set_doctor_status_def set_profile_status_eq)
  have 4: "\<not> up docError \<longrightarrow>
        (\<forall>r \<in> set (doctor_profiles (snd (approve_doctor up s i))).
           dp_profile_id r = i \<longrightarrow> dp_approval_status r = ''approved'')"
    using sets t by simp
  show ?thesis
    by (rule conjI [OF 1 conjI [OF 2 conjI [OF 3 4]]])
qed

lemma reject_doctor_outcomes:
  "(up docError \<longrightarrow> reject_doctor up s i = ((500, ErrorJson ''Failed to update doctor profile''), s))
   \<and> (\<not> up docError \<and> up profError \<longrightarrow>
        reject_doctor up s i =
          ((500, ErrorJson ''Doctor rejected but profile update failed''),
           s\<lparr>doctor_profiles :=
               map (\<lambda>r. if dp_profile_id r = i then r\<lparr>dp_approval_status := ''rejected''\<rparr> else r)
                 (doctor_profiles s)\<rparr>))
   \<and> (\<not> up docError \<and> \<not> up profError \<longrightarrow>
        reject_doctor up s i =
          ((200, SuccessJson),
           s\<lparr>doctor_profiles :=
               map (\<lambda>r. if dp_profile_id r = i then r\<lparr>dp_approval_status := ''rejected''\<rparr> else r)
                 (doctor_profiles s),
             profiles :=
               map (\<lambda>p. if p_id p = i then p\<lparr>p_approval_status := ''rejected''\<rparr> else p)
                 (profiles s)\<rparr>))
   \<and> (\<not> up docError \<longrightarrow>
        (\<forall>r \<in> set (doctor_profiles (snd (reject_doctor up s i))).
           dp_profile_id r = i \<longrightarrow> dp_approval_status r = ''rejected''))"
proof -
  have sets: "\<forall>r \<in> set (set_doctor_status ''rejected'' i (doctor_profiles s)).
      dp_profile_id r = i \<longrightarrow> dp_approval_status r = ''rejected''"
    by (blast intro: set_doctor_status_sets)
  have t: "\<not> up docError \<Longrightarrow>
      doctor_profiles (snd (reject_doctor up s i)) = set_doctor_status ''rejected'' i (doctor_profiles s)"
    by (simp add: reject_doctor_def Let_def)
  have 1: "up docError \<longrightarrow> reject_doctor up s i = ((500, ErrorJson ''Failed to update doctor profile''), s)"
    by (simp add: reject_doctor_def)
  have 2: "\<not> up docError \<and> up profError \<longrightarrow>
        reject_doctor up s i =
          ((500, ErrorJson ''Doctor rejected but profile update failed''),
           s\<lparr>doctor_profiles :=
               map (\<lambda>r. if dp_profile_id r = i then r\<lparr>dp_approval_status := ''rejected''\<rparr> else r)
                 (doctor_profiles s)\<rparr>)"
    by (simp add: reject_doctor_def Let_def set_doctor_status_def)
  have 3: "\<not> up docError \<and> \<not> up profError \<longrightarrow>
        reject_doctor up s i =
          ((200, SuccessJson),
           s\<lparr>doctor_profiles :=
               map (\<lambda>r. if dp_profile_id r = i then r\<lparr>dp_approval_status := ''rejected''\<rparr> else r)
                 (doctor_profiles s),
             profiles :=
               map (\<lambda>p. if p_id p = i then p\<lparr>p_approval_status := ''rejected''\<rparr> else p)
                 (profiles s)\<rparr>)"
    by (simp add: reject_doctor_def Let_def set_doctor_status_def set_profile_status_eq)
  have 4: "\<not> up docError \<longrightarrow>
        (\<forall>r \<in> set (doctor_profiles (snd (reject_doctor up s i))).
           dp_profile_id r = i \<longrightarrow> dp_approval_status r = ''rejected'')"
    using sets t by simp
  show ?thesis
    by (rule conjI [OF 1 conjI [OF 2 conjI [OF 3 4]]])
qed

lemma approve_assistant_outcomes:
  "(up daError \<longrightarrow> approve_assistant up s i = ((500, ErrorJson ''Failed to update assistant link''), s))
   \<and> (\<not> up daError \<and> up profError \<longrightarrow>
        approve_assistant up s i =
          ((500, ErrorJson ''Assistant approved but profile update failed''),
           s\<lparr>doctor_assistant_profiles :=
               map (\<lambda>r. if da_profile_id r = i then r\<lparr>da_approval_status := ''approved''\<rparr> else r)
                 (doctor_assistant_profiles s)\<rparr>))
   \<and> (\<not> up daError \<and> \<not> up profError \<longrightarrow>
        approve_assistant up s i =
          ((200, SuccessJson),
           s\<lparr>doctor_assistant_profiles :=
               map (\<lambda>r. if da_profile_id r = i then r\<lparr>da_approval_status := ''approved''\<rparr> else r)
                 (doctor_assistant_profiles s),
             profiles :=
               map (\<lambda>p. if p_id p = i then p\<lparr>p_approval_status := ''approved''\<rparr> else p)
                 (profiles s)\<rparr>))
   \<and> (\<not> up daError \<longrightarrow>
        (\<forall>r \<in> set (doctor_assistant_profiles (snd (approve_assistant up s i))).
           da_profile_id r = i \<longrightarrow> da_approval_status r = ''approved''))"
proof -
  have sets: "\<forall>r \<in> set (set_assistant_status ''approved'' i (doctor_assistant_profiles s)).
      da_profile_id r = i \<longrightarrow> da_approval_status r = ''approved''"
    by (blast intro: set_assistant_status_sets)
  have t: "\<not> up daError \<Longrightarrow>
      doctor_assistant_profiles (snd (approve_assistant up s i)) = set_assistant_status ''approved'' i (doctor_assistant_profiles s)"
    by (simp add: approve_assistant_def Let_def)
  have 1: "up daError \<longrightarrow> approve_assistant up s i = ((500, ErrorJson ''Failed to update assistant link''), s)"
    by (simp add: approve_assistant_def)
  have 2: "\<not> up daError \<and> up profError \<longrightarrow>
        approve_assistant up s i =
          ((500, ErrorJson ''Assistant approved but profile update failed''),
           s\<lparr>doctor_assistant_profiles :=
               map (\<lambda>r. if da_profile_id r = i then r\<lparr>da_approval_status := ''approved''\<rparr> else r)
                 (doctor_assistant_profiles s)\<rparr>)"
    by (simp add: approve_assistant_def Let_def set_assistant_status_def)
  have 3: "\<not> up daError \<and> \<not> up profError \<longrightarrow>
        approve_assistant up s i =
          ((200, SuccessJson),
           s\<lparr>doctor_assistant_profiles :=
               map (\<lambda>r. if da_profile_id r = i then r\<lparr>da_approval_status := ''approved''\<rparr> else r)
                 (doctor_assistant_profiles s),
             profiles :=
               map (\<lambda>p. if p_id p = i then p\<lparr>p_approval_status := ''approved''\<rparr> else p)
                 (profiles s)\<rparr>)"
    by (simp add: approve_assistant_def Let_def set_assistant_status_def set_profile_status_eq)
  have 4: "\<not> up daError \<longrightarrow>
        (\<forall>r \<in> set (doctor_assistant_profiles (snd (approve_assistant up s i))).
           da_profile_id r = i \<longrightarrow> da_approval_status r = ''approved'')"
    using sets t by simp
  show ?thesis
    by (rule conjI [OF 1 conjI [OF 2 conjI [OF 3 4]]])
qed

lemma reject_assistant_outcomes:
  "(up daError \<longrightarrow> reject_assistant up s i = ((500, ErrorJson ''Failed to update assistant link''), s))
   \<and> (\<not> up daError \<and> up profError \<longrightarrow>
        reject_assistant up s i =
          ((500, ErrorJson ''Assistant rejected but profile update failed''),
           s\<lparr>doctor_assistant_profiles :=
               map (\<lambda>r. if da_profile_id r = i then r\<lparr>da_approval_status := ''rejected''\<rparr> else r)
                 (doctor_assistant_profiles s)\<rparr>))
   \<and> (\<not> up daError \<and> \<not> up profError \<longrightarrow>
        reject_assistant up s i =
          ((200, SuccessJson),
           s\<lparr>doctor_assistant_profiles :=
               map (\<lambda>r. if da_profile_id r = i then r\<lparr>da_approval_status := ''rejected''\<rparr> else r)
                 (doctor_assistant_profiles s),
             profiles :=
               map (\<lambda>p. if p_id p = i then p\<lparr>p_approval_status := ''rejected''\<rparr> else p)
                 (profiles s)\<rparr>))
   \<and> (\<not> up daError \<longrightarrow>
        (\<forall>r \<in> set (doctor_assistant_profiles (snd (reject_assistant up s i))).
           da_profile_id r = i \<longrightarrow> da_approval_status r = ''rejected''))"
proof -
  have sets: "\<forall>r \<in> set (set_assistant_status ''rejected'' i (doctor_assistant_profiles s)).
      da_profile_id r = i \<longrightarrow> da_approval_status r = ''rejected''"
    by (blast intro: set_assistant_status_sets)
  have t: "\<not> up daError \<Longrightarrow>
      doctor_assistant_profiles (snd (reject_assistant up s i)) = set_assistant_status ''rejected'' i (doctor_assistant_profiles s)"
    by (simp add: reject_assistant_def Let_def)
  have 1: "up daError \<longrightarrow> reject_assistant up s i = ((500, ErrorJson ''Failed to update assistant link''), s)"
    by (simp add: reject_assistant_def)
  have 2: "\<not> up daError \<and> up profError \<longrightarrow>
        reject_assistant up s i =
          ((500, ErrorJson ''Assistant rejected but profile update failed''),
           s\<lparr>doctor_assistant_profiles :=
               map (\<lambda>r. if da_profile_id r = i then r\<lparr>da_approval_status := ''rejected''\<rparr> else r)
                 (doctor_assistant_profiles s)\<rparr>)"
    by (simp add: reject_assistant_def Let_def set_assistant_status_def)
  have 3: "\<not> up daError \<and> \<not> up profError \<longrightarrow>
        reject_assistant up s i =
          ((200, SuccessJson),
           s\<lparr>doctor_assistant_profiles :=
               map (\<lambda>r. if da_profile_id r = i then r\<lparr>da_approval_status := ''rejected''\<rparr> else r)
                 (doctor_assistant_profiles s),
             profiles :=
               map (\<lambda>p. if p_id p = i then p\<lparr>p_approval_status := ''rejected''\<rparr> else p)
                 (profiles s)\<rparr>)"
    by (simp add: reject_assistant_def Let_def set_assistant_status_def set_profile_status_eq)
  have 4: "\<not> up daError \<longrightarrow>
        (\<forall>r \<in> set (doctor_assistant_profiles (snd (reject_assistant up s i))).
           da_profile_id r = i \<longrightarrow> da_approval_status r = ''rejected'')"
    using sets t by simp
  show ?thesis
    by (rule conjI [OF 1 conjI [OF 2 conjI [OF 3 4]]])
qed

lemma auth_adm1:
  "authMiddleware no_faults clinic (Some ''Bearer tok-adm1'') =
     Inr \<lparr>req_user = Some (mk_user ''adm1'' ''hina@city.example'' (Some ''hospital_admin'')),
          req_profile = Some (mk_profile ''adm1'' ''Hina Raza'' ''hospital_admin'' ''approved'')\<rparr>"
  by (simp add: authMiddleware_def bearer_token_def getUser_def no_faults_def clinic_def
      mk_user_def mk_profile_def)






text \<open>
  What the handler that reads the token itself provisions, when the store takes the
  insert: the account's id, the status \<open>pending\<close>, and the metadata's role or
  \<open>doctor\<close>.
\<close>

lemma profile_me_provisions:
  assumes "bearer_token authHeader = Some token" "\<not> up userError"
    and "getUser s token = Some user"
    and "filter (\<lambda>p. p_id p = u_id user) (profiles s) = []"
    and "\<not> up createError"
  shows "\<exists>newProfile.
           profile_me up s authHeader =
             ((200, UserProfileJson user newProfile), s\<lparr>profiles := profiles s @ [newProfile]\<rparr>)
         \<and> p_id newProfile = u_id user
         \<and> p_approval_status newProfile = ''pending''
         \<and> p_role newProfile =
             (case meta_role user of None \<Rightarrow> ''doctor''
              | Some r \<Rightarrow> if r = [] then ''doctor'' else r)"
proof -
  have "u_id user \<notin> set (map p_id (profiles s))"
    using assms(4) by (auto simp: filter_empty_conv)
  then show ?thesis
    using assms by (simp add: profile_me_def insert_profile_def or_else_def Let_def)
qed

text \<open>
  Behind \<open>authMiddleware\<close> the handler of GET /api/profile/me never reaches its
  provisioning branch: the middleware has answered 403 when the profile row is missing.
\<close>

lemma profile_me_guarded_never_provisions:
  "profiles (snd (profile_me_guarded up s authHeader)) = profiles s"
  by (auto simp: profile_me_guarded_def router_use_def authMiddleware_def profile_me_handler_def
      split: option.splits sum.splits if_splits)

text \<open>
  C5. The claim asks that a hospital admin's approve and reject reach only doctors and
  assistants of the admin's own hospitals. The handlers do not look at the caller: the
  admin \<open>adm1\<close> manages \<open>h1\<close> only, the pending doctor \<open>d2\<close> of \<open>h2\<close> is not in the
  admin's own listing, and yet the admin's approve call for \<open>d2\<close> succeeds and sets both
  of the doctor's rows to \<open>approved\<close>.
\<close>

theorem approve_outside_own_hospital:
  "pending_doctors no_faults clinic (mk_profile ''adm1'' ''Hina Raza'' ''hospital_admin'' ''approved'')
     = Inr []
   \<and> hospital_admin_router no_faults clinic (Some ''Bearer tok-adm1'') (DoctorApprove ''d2'') =
     ((200, SuccessJson),
      clinic\<lparr>doctor_profiles := (doctor_profiles clinic)[1 :=
          \<lparr>dp_profile_id = ''d2'', dp_specialization = Some ''Dermatology'',
           dp_hospital_id = Some ''h2'', dp_license_number = Some ''L-2'', dp_cnic = Some ''2-2'',
           dp_approval_status = ''approved''\<rparr>],
        profiles := (profiles clinic)[3 := mk_profile ''d2'' ''Dr Bilal'' ''doctor'' ''approved'']\<rparr>)"
proof -
  have "hospital_admin_router no_faults clinic (Some ''Bearer tok-adm1'') (DoctorApprove ''d2'')
          = approve_doctor no_faults clinic ''d2''"
    by (simp add: hospital_admin_router_def router_use_def auth_adm1 requireApprovedRole_def
        mk_profile_def)
  moreover have "approve_doctor no_faults clinic ''d2'' =
     ((200, SuccessJson),
      clinic\<lparr>doctor_profiles := (doctor_profiles clinic)[1 :=
          \<lparr>dp_profile_id = ''d2'', dp_specialization = Some ''Dermatology'',
           dp_hospital_id = Some ''h2'', dp_license_number = Some ''L-2'', dp_cnic = Some ''2-2'',
           dp_approval_status = ''approved''\<rparr>],
        profiles := (profiles clinic)[3 := mk_profile ''d2'' ''Dr Bilal'' ''doctor'' ''approved'']\<rparr>)"
    by (simp add: approve_doctor_def no_faults_def set_profile_status_eq set_doctor_status_def
        clinic_def mk_profile_def)
  moreover have "pending_doctors no_faults clinic
      (mk_profile ''adm1'' ''Hina Raza'' ''hospital_admin'' ''approved'') = Inr []"
    by (simp add: pending_doctors_def no_faults_def clinic_def mk_profile_def)
  ultimately show ?thesis
    by simp
qed


text \<open>
  C6. An account without a profile row and without a role in its metadata calls
  GET /api/profile/me. The claim has a profile provisioned with the role \<open>patient\<close>.
  Neither copy of the route does so: the handler that reads the token itself provisions
  the role \<open>doctor\<close>; the one behind \<open>authMiddleware\<close> answers 403 and provisions
  nothing, although its own handler, when reached without a profile, provisions
  \<open>patient\<close>.
\<close>

theorem provisioning_at_new_account:
  "profile_me no_faults clinic (Some ''Bearer tok-u9'') =
     ((200, UserProfileJson (mk_user ''u9'' ''new@mail.example'' None)
        (mk_profile ''u9'' ''new@mail.example'' ''doctor'' ''pending'')),
      clinic\<lparr>profiles := profiles clinic @
        [mk_profile ''u9'' ''new@mail.example'' ''doctor'' ''pending'']\<rparr>)
   \<and> profile_me_guarded no_faults clinic (Some ''Bearer tok-u9'') =
     ((403, ErrorJson ''Profile not found''), clinic)
   \<and> profile_me_handler no_faults clinic
       \<lparr>req_user = Some (mk_user ''u9'' ''new@mail.example'' None), req_profile = None\<rparr> =
     ((200, UserProfileJson (mk_user ''u9'' ''new@mail.example'' None)
        (mk_profile ''u9'' ''new@mail.example'' ''patient'' ''pending'')),
      clinic\<lparr>profiles := profiles clinic @
        [mk_profile ''u9'' ''new@mail.example'' ''patient'' ''pending'']\<rparr>)"
proof -
  have 1: "profile_me no_faults clinic (Some ''Bearer tok-u9'') =
     ((200, UserProfileJson (mk_user ''u9'' ''new@mail.example'' None)
        (mk_profile ''u9'' ''new@mail.example'' ''doctor'' ''pending'')),
      clinic\<lparr>profiles := profiles clinic @
        [mk_profile ''u9'' ''new@mail.example'' ''doctor'' ''pending'']\<rparr>)"
    by (simp add: profile_me_def bearer_token_def getUser_def no_faults_def clinic_def
        mk_user_def mk_profile_def or_else_def or_null_def insert_profile_def Let_def)
  have 2: "profile_me_guarded no_faults clinic (Some ''Bearer tok-u9'') =
     ((403, ErrorJson ''Profile not found''), clinic)"
    by (simp add: profile_me_guarded_def router_use_def authMiddleware_def bearer_token_def
        getUser_def no_faults_def clinic_def mk_user_def mk_profile_def)
  have 3: "profile_me_handler no_faults clinic
       \<lparr>req_user = Some (mk_user ''u9'' ''new@mail.example'' None), req_profile = None\<rparr> =
     ((200, UserProfileJson (mk_user ''u9'' ''new@mail.example'' None)
        (mk_profile ''u9'' ''new@mail.example'' ''patient'' ''pending'')),
      clinic\<lparr>profiles := profiles clinic @
        [mk_profile ''u9'' ''new@mail.example'' ''patient'' ''pending'']\<rparr>)"
    by (simp add: profile_me_handler_def no_faults_def clinic_def allowedRoles_def
        mk_user_def mk_profile_def or_else_def or_null_def insert_profile_def Let_def)
  show ?thesis
    by (rule conjI [OF 1 conjI [OF 2 3]])
qed

text \<open>
  C7. Each of the four coupled handlers writes the role record first and the profile
  second. When the first write fails, the generic error is sent and the store is as
  before. When the first write is done and the second fails, the error names the write
  that was done, and the store keeps it: every role row of that profile id carries the
  new status, the other role rows and all profiles are as before. When both are done,
  the rows of that id carry the new status in both tables. Whenever the first write is
  done, every role row of that id in the resulting store has the new status.
\<close>

theorem coupled_write_failures:
  "((up docError \<longrightarrow> approve_doctor up s i = ((500, ErrorJson ''Failed to update doctor profile''), s))
   \<and> (\<not> up docError \<and> up profError \<longrightarrow>
        approve_doctor up s i =
          ((500, ErrorJson ''Doctor approved but profile update failed''),
           s\<lparr>doctor_profiles :=
               map (\<lambda>r. if dp_profile_id r = i then r\<lparr>dp_approval_status := ''approved''\<rparr> else r)
                 (doctor_profiles s)\<rparr>))
   \<and> (\<not> up docError \<and> \<not> up profError \<longrightarrow>
        approve_doctor up s i =
          ((200, SuccessJson),
           s\<lparr>doctor_profiles :=
               map (\<lambda>r. if dp_profile_id r = i then r\<lparr>dp_approval_status := ''approved''\<rparr> else r)
                 (doctor_profiles s),
             profiles :=
               map (\<lambda>p. if p_id p = i then p\<lparr>p_approval_status := ''approved''\<rparr> else p)
                 (profiles s)\<rparr>))
   \<and> (\<not> up docError \<longrightarrow>
        (\<forall>r \<in> set (doctor_profiles (snd (approve_doctor up s i))).
           dp_profile_id r = i \<longrightarrow> dp_approval_status r = ''approved'')))
   \<and> ((up docError \<longrightarrow> reject_doctor up s i = ((500, ErrorJson ''Failed to update doctor profile''), s))
   \<and> (\<not> up docError \<and> up profError \<longrightarrow>
        reject_doctor up s i =
          ((500, ErrorJson ''Doctor rejected but profile update failed''),
           s\<lparr>doctor_profiles :=
               map (\<lambda>r. if dp_profile_id r = i then r\<lparr>dp_approval_status := ''rejected''\<rparr> else r)
                 (doctor_profiles s)\<rparr>))
   \<and> (\<not> up docError \<and> \<not> up profError \<longrightarrow>
        reject_doctor up s i =
          ((200, SuccessJson),
           s\<lparr>doctor_profiles :=
               map (\<lambda>r. if dp_profile_id r = i then r\<lparr>dp_approval_status := ''rejected''\<rparr> else r)
                 (doctor_profiles s),
             profiles :=
               map (\<lambda>p. if p_id p = i then p\<lparr>p_approval_status := ''rejected''\<rparr> else p)
                 (profiles s)\<rparr>))
   \<and> (\<not> up docError \<longrightarrow>
        (\<forall>r \<in> set (doctor_profiles (snd (reject_doctor up s i))).
           dp_profile_id r = i \<longrightarrow> dp_approval_status r = ''rejected'')))
   \<and> ((up daError \<longrightarrow> approve_assistant up s i = ((500, ErrorJson ''Failed to update assistant link''), s))
   \<and> (\<not> up daError \<and> up profError \<longrightarrow>
        approve_assistant up s i =
          ((500, ErrorJson ''Assistant approved but profile update failed''),
           s\<lparr>doctor_assistant_profiles :=
               map (\<lambda>r. if da_profile_id r = i then r\<lparr>da_approval_status := ''approved''\<rparr> else r)
                 (doctor_assistant_profiles s)\<rparr>))
   \<and> (\<not> up daError \<and> \<not> up profError \<longrightarrow>
        approve_assistant up s i =
          ((200, SuccessJson),
           s\<lparr>doctor_assistant_profiles :=
               map (\<lambda>r. if da_profile_id r = i then r\<lparr>da_approval_status := ''approved''\<rparr> else r)
                 (doctor_assistant_profiles s),
             profiles :=
               map (\<lambda>p. if p_id p = i then p\<lparr>p_approval_status := ''approved''\<rparr> else p)
                 (profiles s)\<rparr>))
   \<and> (\<not> up daError \<longrightarrow>
        (\<forall>r \<in> set (doctor_assistant_profiles (snd (approve_assistant up s i))).
           da_profile_id r = i \<longrightarrow> da_approval_status r = ''approved'')))
   \<and> ((up daError \<longrightarrow> reject_assistant up s i = ((500, ErrorJson ''Failed to update assistant link''), s))
   \<and> (\<not> up daError \<and> up profError \<longrightarrow>
        reject_assistant up s i =
          ((500, ErrorJson ''Assistant rejected but profile update failed''),
           s\<lparr>doctor_assistant_profiles :=
               map (\<lambda>r. if da_profile_id r = i then r\<lparr>da_approval_status := ''rejected''\<rparr> else r)
                 (doctor_assistant_profiles s)\<rparr>))
   \<and> (\<not> up daError \<and> \<not> up profError \<longrightarrow>
        reject_assistant up s i =
          ((200, SuccessJson),
           s\<lparr>doctor_assistant_profiles :=
               map (\<lambda>r. if da_profile_id r = i then r\<lparr>da_approval_status := ''rejected''\<rparr> else r)
                 (doctor_assistant_profiles s),
             profiles :=
               map (\<lambda>p. if p_id p = i then p\<lparr>p_approval_status := ''rejected''\<rparr> else p)
                 (profiles s)\<rparr>))
   \<and> (\<not> up daError \<longrightarrow>
        (\<forall>r \<in> set (doctor_assistant_profiles (snd (reject_assistant up s i))).
           da_profile_id r = i \<longrightarrow> da_approval_status r = ''rejected'')))"
  by (rule conjI [OF approve_doctor_outcomes conjI [OF reject_doctor_outcomes
        conjI [OF approve_assistant_outcomes reject_assistant_outcomes]]])

theorem coupled_write_failures_witness:
  "approve_doctor (only_fails docError) clinic ''d2'' =
     ((500, ErrorJson ''Failed to update doctor profile''), clinic)
   \<and> approve_doctor (only_fails profError) clinic ''d2'' =
     ((500, ErrorJson ''Doctor approved but profile update failed''),
      clinic\<lparr>doctor_profiles := (doctor_profiles clinic)[1 :=
        \<lparr>dp_profile_id = ''d2'', dp_specialization = Some ''Dermatology'',
         dp_hospital_id = Some ''h2'', dp_license_number = Some ''L-2'', dp_cnic = Some ''2-2'',
         dp_approval_status = ''approved''\<rparr>]\<rparr>)
   \<and> reject_assistant (only_fails profError) clinic ''a1'' =
     ((500, ErrorJson ''Assistant rejected but profile update failed''),
      clinic\<lparr>doctor_assistant_profiles := (doctor_assistant_profiles clinic)[0 :=
        \<lparr>da_profile_id = ''a1'', da_doctor_profile_id = Some ''d1'', da_hospital_id = Some ''h1'',
         da_approval_status = ''rejected''\<rparr>]\<rparr>)
   \<and> approve_assistant no_faults clinic ''a1'' =
     ((200, SuccessJson),
      clinic\<lparr>doctor_assistant_profiles := (doctor_assistant_profiles clinic)[0 :=
        \<lparr>da_profile_id = ''a1'', da_doctor_profile_id = Some ''d1'', da_hospital_id = Some ''h1'',
         da_approval_status = ''approved''\<rparr>],
        profiles := (profiles clinic)[4 :=
          mk_profile ''a1'' ''Asma'' ''doctor_assistant'' ''approved'']\<rparr>)
   \<and> map dp_approval_status
         (doctor_profiles (snd (approve_doctor (only_fails profError) clinic ''d2'')))
       = [''approved'', ''approved'']
   \<and> map p_approval_status
         (profiles (snd (approve_doctor (only_fails profError) clinic ''d2'')))
       = map p_approval_status (profiles clinic)"
proof -
  have 1: "approve_doctor (only_fails docError) clinic ''d2'' =
     ((500, ErrorJson ''Failed to update doctor profile''), clinic)"
    using coupled_write_failures [of "only_fails docError" clinic "''d2''"]
    by (simp add: only_fails_def)
  have 2: "approve_doctor (only_fails profError) clinic ''d2'' =
     ((500, ErrorJson ''Doctor approved but profile update failed''),
      clinic\<lparr>doctor_profiles := (doctor_profiles clinic)[1 :=
        \<lparr>dp_profile_id = ''d2'', dp_specialization = Some ''Dermatology'',
         dp_hospital_id = Some ''h2'', dp_license_number = Some ''L-2'', dp_cnic = Some ''2-2'',
         dp_approval_status = ''approved''\<rparr>]\<rparr>)"
    using coupled_write_failures [of "only_fails profError" clinic "''d2''"]
    by (simp add: only_fails_def clinic_def)
  have 3: "reject_assistant (only_fails profError) clinic ''a1'' =
     ((500, ErrorJson ''Assistant rejected but profile update failed''),
      clinic\<lparr>doctor_assistant_profiles := (doctor_assistant_profiles clinic)[0 :=
        \<lparr>da_profile_id = ''a1'', da_doctor_profile_id = Some ''d1'', da_hospital_id = Some ''h1'',
         da_approval_status = ''rejected''\<rparr>]\<rparr>)"
    using coupled_write_failures [of "only_fails profError" clinic "''a1''"]
    by (simp add: only_fails_def clinic_def)
  have 4: "approve_assistant no_faults clinic ''a1'' =
     ((200, SuccessJson),
      clinic\<lparr>doctor_assistant_profiles := (doctor_assistant_profiles clinic)[0 :=
        \<lparr>da_profile_id = ''a1'', da_doctor_profile_id = Some ''d1'', da_hospital_id = Some ''h1'',
         da_approval_status = ''approved''\<rparr>],
        profiles := (profiles clinic)[4 :=
          mk_profile ''a1'' ''Asma'' ''doctor_assistant'' ''approved'']\<rparr>)"
    using coupled_write_failures [of no_faults clinic "''a1''"]
    by (simp add: no_faults_def clinic_def mk_profile_def)
  have 5: "map dp_approval_status
         (doctor_profiles (snd (approve_doctor (only_fails profError) clinic ''d2'')))
       = [''approved'', ''approved'']"
    and 6: "map p_approval_status
         (profiles (snd (approve_doctor (only_fails profError) clinic ''d2'')))
       = map p_approval_status (profiles clinic)"
    unfolding 2 by (simp_all add: clinic_def)
  show ?thesis
    by (rule conjI [OF 1 conjI [OF 2 conjI [OF 3 conjI [OF 4 conjI [OF 5 6]]]]])
qed

text \<open>
  C8. When both writes are done, rejecting a hospital admin sets the status of the
  profile with that id to \<open>rejected\<close> and the status of every hospital whose
  \<open>admin_profile_id\<close> is that id to \<open>rejected\<close>; the other rows stay.
\<close>

theorem reject_admin_cascades:
  assumes "\<not> up profileError" "\<not> up hospitalError"
    and "reject_hospital_admin up s profileId = (res, s')"
  shows "res = (200, SuccessJson)
    \<and> profiles s' =
        map (\<lambda>p. if p_id p = profileId then p\<lparr>p_approval_status := ''rejected''\<rparr> else p)
          (profiles s)
    \<and> hospitals s' =
        map (\<lambda>h. if h_admin_profile_id h = Some profileId then h\<lparr>h_status := ''rejected''\<rparr> else h)
          (hospitals s)
    \<and> (\<forall>h \<in> set (hospitals s'). h_admin_profile_id h = Some profileId \<longrightarrow> h_status h = ''rejected'')
    \<and> (\<forall>p \<in> set (profiles s'). p_id p = profileId \<longrightarrow> p_approval_status p = ''rejected'')"
proof -
  have eq: "reject_hospital_admin up s profileId =
      ((200, SuccessJson),
       s\<lparr>profiles := set_profile_status ''rejected'' profileId (profiles s),
         hospitals := set_status_of_admin ''rejected'' profileId (hospitals s)\<rparr>)"
    using assms(1,2) by (simp add: reject_hospital_admin_def Let_def)
  have res: "res = (200, SuccessJson)"
    and s': "s' = s\<lparr>profiles := set_profile_status ''rejected'' profileId (profiles s),
         hospitals := set_status_of_admin ''rejected'' profileId (hospitals s)\<rparr>"
    using assms(3) unfolding eq by simp_all
  have p: "profiles s' =
        map (\<lambda>p. if p_id p = profileId then p\<lparr>p_approval_status := ''rejected''\<rparr> else p)
          (profiles s)"
    by (simp add: s' set_profile_status_eq)
  have h: "hospitals s' =
        map (\<lambda>h. if h_admin_profile_id h = Some profileId then h\<lparr>h_status := ''rejected''\<rparr> else h)
          (hospitals s)"
    by (simp add: s' set_status_of_admin_def)
  have hs: "hospitals s' = set_status_of_admin ''rejected'' profileId (hospitals s)"
    and ps: "profiles s' = set_profile_status ''rejected'' profileId (profiles s)"
    by (simp_all add: s')
  have ph: "\<forall>h \<in> set (hospitals s'). h_admin_profile_id h = Some profileId \<longrightarrow> h_status h = ''rejected''"
    unfolding hs by (blast intro: set_status_of_admin_sets)
  have pp: "\<forall>p \<in> set (profiles s'). p_id p = profileId \<longrightarrow> p_approval_status p = ''rejected''"
    unfolding ps by (blast intro: set_profile_status_sets)
  from res p h ph pp show ?thesis
    by blast
qed

theorem reject_admin_cascades_witness:
  "reject_hospital_admin no_faults clinic ''adm2'' =
     ((200, SuccessJson),
      clinic\<lparr>profiles := (profiles clinic)[1 := mk_profile ''adm2'' ''Omar Sheikh'' ''hospital_admin'' ''rejected''],
        hospitals := (hospitals clinic)[1 :=
          \<lparr>h_id = ''h2'', h_name = ''Lake Clinic'', h_address = None, h_hospital_type = None,
           h_admin_profile_id = Some ''adm2'', h_status = ''rejected''\<rparr>]\<rparr>)"
proof -
  obtain res s' where r: "reject_hospital_admin no_faults clinic ''adm2'' = (res, s')"
    by (cases "reject_hospital_admin no_faults clinic ''adm2''")
  have n: "\<not> no_faults profileError" "\<not> no_faults hospitalError"
    by (simp_all add: no_faults_def)
  from reject_admin_cascades [OF n r] have "res = (200, SuccessJson)"
    and "profiles s' = (profiles clinic)[1 := mk_profile ''adm2'' ''Omar Sheikh'' ''hospital_admin'' ''rejected'']"
    and "hospitals s' = (hospitals clinic)[1 :=
          \<lparr>h_id = ''h2'', h_name = ''Lake Clinic'', h_address = None, h_hospital_type = None,
           h_admin_profile_id = Some ''adm2'', h_status = ''rejected''\<rparr>]"
    by (simp_all add: clinic_def mk_profile_def)
  moreover have "s' = clinic\<lparr>profiles := profiles s', hospitals := hospitals s'\<rparr>"
    using r by (auto simp: reject_hospital_admin_def Let_def no_faults_def)
  ultimately show ?thesis
    using r by simp
qed


text \<open>
  C9. Approving a hospital admin changes at most the \<open>approval_status\<close> of the profile
  with that id; the hospitals, and every other table, stay as they were.
\<close>

theorem approve_admin_keeps_hospitals:
  "snd (approve_hospital_admin up s profileId) =
     s\<lparr>profiles :=
         (if up profileError then profiles s
          else map (\<lambda>p. if p_id p = profileId then p\<lparr>p_approval_status := ''approved''\<rparr> else p)
                 (profiles s))\<rparr>
   \<and> hospitals (snd (approve_hospital_admin up s profileId)) = hospitals s"
  by (simp add: approve_hospital_admin_def set_profile_status_eq)

theorem approve_admin_keeps_hospitals_witness:
  "map h_status (hospitals (snd (approve_hospital_admin no_faults clinic ''adm2'')))
     = [''approved'', ''pending'']
   \<and> map p_approval_status (profiles (snd (approve_hospital_admin no_faults clinic ''adm2'')))
     = [''approved'', ''approved'', ''approved'', ''pending'', ''pending'', ''approved'', ''approved'']
   \<and> map h_status (hospitals (snd (approve_hospital no_faults
         (snd (approve_hospital_admin no_faults clinic ''adm2'')) ''h2'')))
     = [''approved'', ''approved'']"
  using approve_admin_keeps_hospitals [of no_faults clinic "''adm2''"]
  by (simp add: no_faults_def clinic_def mk_profile_def approve_hospital_def
      set_hospital_status_def)




end
